theory Spec2Isabelle
  imports Complex_Main
begin

section \<open>Conventions\<close>

text \<open>
  Python floats are modelled as reals. A division of Python floats whose divisor is
  zero is the \<open>ZeroDivisionError\<close> branch of the model; a division whose dividend is
  a numpy float (the one place is \<open>calculate_adaptive_stop\<close>, below) does not raise
  and is modelled with the infinities and nan it returns. An exception leaves the
  state as the statements before it have changed it, so every operation returns its
  result (or error) together with the state. Timestamps (\<open>datetime.now()\<close>) are
  left out.
\<close>

datatype error =
    DuplicatePosition    \<comment> \<open>\<open>ValueError("Position ... already exists")\<close>\<close>
  | PositionNotFound     \<comment> \<open>\<open>ValueError("Position ... not found")\<close>\<close>
  | ZeroDivisionError
  | IndexError
  | KeyError

section \<open>dynamic\_regime\_system.py\<close>

datatype RegimeType = CRISIS_OPPORTUNITY | HIGH_VOL_STRESS | BULL_NORMAL | LOW_VOL_COMPLACENCY

fun regime_value :: "RegimeType \<Rightarrow> string" where
  "regime_value CRISIS_OPPORTUNITY = ''crisis_opportunity''"
| "regime_value HIGH_VOL_STRESS = ''high_vol_stress''"
| "regime_value BULL_NORMAL = ''bull_normal''"
| "regime_value LOW_VOL_COMPLACENCY = ''low_vol_complacency''"

record MarketState =
  vix_level :: real
  t2108_level :: "real option"
  momentum_ratio :: "real option"
  day :: nat
  regime :: RegimeType

text \<open>
  The \<open>reason\<close> of a rule adjustment is an f-string. It is kept as its pieces: literal
  text, and numbers still to be printed with one (\<open>:.1f\<close>) or two (\<open>:.2f\<close>) decimals.
  A printed number is never empty, so the Python string is empty exactly when the list
  of pieces holds no number and only empty text.
\<close>

datatype reason_piece = Txt string | Fmt1 real | Fmt2 real

record RuleAdjustment =
  stop_multiplier :: real
  profit_multiplier :: real
  urgency_factor :: real
  reason :: "reason_piece list"

definition RuleAdjustment_default :: RuleAdjustment where
  "RuleAdjustment_default =
     \<lparr>stop_multiplier = 1.0, profit_multiplier = 1.0, urgency_factor = 1.0, reason = []\<rparr>"

text \<open>The truth value of \<open>adjustment.reason\<close>: a non-empty string.\<close>

fun piece_nonempty :: "reason_piece \<Rightarrow> bool" where
  "piece_nonempty (Txt s) = (s \<noteq> [])"
| "piece_nonempty (Fmt1 x) = True"
| "piece_nonempty (Fmt2 x) = True"

definition reason_nonempty :: "reason_piece list \<Rightarrow> bool" where
  "reason_nonempty r = list_ex piece_nonempty r"

text \<open>An entry of \<open>DynamicRegimeManager.adjustment_history\<close>, written by \<open>_log_transition\<close>.\<close>

record transition_log =
  tl_day :: nat
  tl_old_regime :: string
  tl_new_regime :: string
  tl_vix :: real
  tl_t2108 :: "real option"
  tl_momentum :: "real option"
  tl_stop_adj :: real
  tl_profit_adj :: real
  tl_urgency :: real
  tl_reason :: "reason_piece list"

definition classify_regime_comprehensive :: "MarketState \<Rightarrow> RegimeType" where
  "classify_regime_comprehensive state =
     (let vix = vix_level state;
          primary_regime =
            (if vix \<ge> 50 then CRISIS_OPPORTUNITY
             else if vix \<ge> 30 then HIGH_VOL_STRESS
             else if vix \<ge> 15 then BULL_NORMAL
             else LOW_VOL_COMPLACENCY)
      in case (t2108_level state, momentum_ratio state) of
           (Some t2108, Some momentum) \<Rightarrow>
             if t2108 < 20 \<and> momentum < 0.8 then
               (if primary_regime = BULL_NORMAL then HIGH_VOL_STRESS
                else if primary_regime = LOW_VOL_COMPLACENCY then BULL_NORMAL
                else primary_regime)
             else if t2108 > 60 \<and> momentum > 2.0 then
               (if primary_regime = HIGH_VOL_STRESS then BULL_NORMAL
                else if primary_regime = BULL_NORMAL \<and> vix < 20 then LOW_VOL_COMPLACENCY
                else primary_regime)
             else primary_regime
         | _ \<Rightarrow> primary_regime)"

text \<open>
  The three blocks of \<open>_calculate_transition_adjustments\<close>, in the order of the source.
  The thresholds are those of \<open>transition_thresholds\<close>: 15.0, -25.0 and +20.0.
\<close>

definition vix_adjustments :: "real \<Rightarrow> RuleAdjustment \<Rightarrow> RuleAdjustment" where
  "vix_adjustments vix_change adjustment =
     (if \<bar>vix_change\<bar> > 15.0 then
        (if vix_change > 0 then
           adjustment\<lparr>stop_multiplier := 1.2 + vix_change / 50,
                      profit_multiplier := 1.1 + vix_change / 100,
                      reason := reason adjustment @ [Txt ''VIX spike +'', Fmt1 vix_change, Txt ''; '']\<rparr>
         else
           adjustment\<lparr>stop_multiplier := 0.9 + vix_change / 100,
                      profit_multiplier := 0.95 + vix_change / 200,
                      reason := reason adjustment @ [Txt ''VIX decline '', Fmt1 vix_change, Txt ''; '']\<rparr>)
      else adjustment)"

definition t2108_adjustments :: "real \<Rightarrow> RuleAdjustment \<Rightarrow> RuleAdjustment" where
  "t2108_adjustments t2108_change adjustment =
     (if t2108_change < - 25.0 then
        adjustment\<lparr>stop_multiplier := stop_multiplier adjustment * 0.7,
                   profit_multiplier := profit_multiplier adjustment * 0.8,
                   urgency_factor := 2.0,
                   reason := reason adjustment @ [Txt ''Breadth collapse '', Fmt1 t2108_change, Txt ''; '']\<rparr>
      else if t2108_change > 20.0 then
        adjustment\<lparr>profit_multiplier := profit_multiplier adjustment * 1.3,
                   reason := reason adjustment @ [Txt ''Breadth surge +'', Fmt1 t2108_change, Txt ''; '']\<rparr>
      else adjustment)"

definition momentum_adjustments :: "real \<Rightarrow> RuleAdjustment \<Rightarrow> RuleAdjustment" where
  "momentum_adjustments momentum_change adjustment =
     (if momentum_change < 0.5 then
        adjustment\<lparr>stop_multiplier := stop_multiplier adjustment * 0.8,
                   urgency_factor := max (urgency_factor adjustment) 1.5,
                   reason := reason adjustment @ [Txt ''Momentum collapse '', Fmt2 momentum_change, Txt ''x; '']\<rparr>
      else if momentum_change > 2.0 then
        adjustment\<lparr>profit_multiplier := profit_multiplier adjustment * 1.2,
                   reason := reason adjustment @ [Txt ''Momentum surge '', Fmt2 momentum_change, Txt ''x; '']\<rparr>
      else adjustment)"

definition calculate_transition_adjustments ::
  "MarketState \<Rightarrow> MarketState \<Rightarrow> error + RuleAdjustment" where
  "calculate_transition_adjustments current previous =
     (let adjustment = vix_adjustments (vix_level current - vix_level previous) RuleAdjustment_default;
          adjustment =
            (case (t2108_level current, t2108_level previous) of
               (Some tc, Some tp) \<Rightarrow> t2108_adjustments (tc - tp) adjustment
             | _ \<Rightarrow> adjustment)
      in case (momentum_ratio current, momentum_ratio previous) of
           (Some mc, Some mp) \<Rightarrow>
             if mp = 0 then Inl ZeroDivisionError
             else Inr (momentum_adjustments (mc / mp) adjustment)
         | _ \<Rightarrow> Inr adjustment)"

text \<open>The values are those of \<open>emergency_rules\<close>.\<close>

definition check_emergency_protocols :: "MarketState \<Rightarrow> MarketState \<Rightarrow> RuleAdjustment option" where
  "check_emergency_protocols current previous =
     (if (case (t2108_level current, t2108_level previous) of
            (Some tc, Some tp) \<Rightarrow> tc - tp < - 30
          | _ \<Rightarrow> False)
      then Some \<lparr>stop_multiplier = 0.6, profit_multiplier = 0.7, urgency_factor = 2.0,
                 reason = [Txt ''EMERGENCY: Breadth collapse protocol activated'']\<rparr>
      else if vix_level current > 60 \<and> vix_level current - vix_level previous > 20
      then Some \<lparr>stop_multiplier = 1.5, profit_multiplier = 1.4, urgency_factor = 0.7,
                 reason = [Txt ''EMERGENCY: Volatility explosion protocol activated'']\<rparr>
      else if (case (momentum_ratio current, momentum_ratio previous) of
                 (Some mc, Some mp) \<Rightarrow> mc < 0.1 \<and> mp > 1.0
               | _ \<Rightarrow> False)
      then Some \<lparr>stop_multiplier = 0.5, profit_multiplier = 0.6, urgency_factor = 3.0,
                 reason = [Txt ''EMERGENCY: Momentum collapse protocol activated'']\<rparr>
      else None)"

definition combine_adjustments :: "RuleAdjustment \<Rightarrow> RuleAdjustment \<Rightarrow> RuleAdjustment" where
  "combine_adjustments base emergency =
     \<lparr>stop_multiplier = stop_multiplier base * stop_multiplier emergency,
      profit_multiplier = profit_multiplier base * profit_multiplier emergency,
      urgency_factor = max (urgency_factor base) (urgency_factor emergency),
      reason = reason base @ [Txt '' + ''] @ reason emergency\<rparr>"

definition log_transition ::
  "RegimeType \<Rightarrow> RegimeType \<Rightarrow> MarketState \<Rightarrow> RuleAdjustment \<Rightarrow> transition_log list \<Rightarrow> transition_log list" where
  "log_transition old_regime new_regime state adjustment adjustment_history =
     adjustment_history @
       [\<lparr>tl_day = day state, tl_old_regime = regime_value old_regime,
         tl_new_regime = regime_value new_regime, tl_vix = vix_level state,
         tl_t2108 = t2108_level state, tl_momentum = momentum_ratio state,
         tl_stop_adj = stop_multiplier adjustment, tl_profit_adj = profit_multiplier adjustment,
         tl_urgency = urgency_factor adjustment, tl_reason = reason adjustment\<rparr>]"

text \<open>
  \<open>detect_regime_transition\<close> returns \<open>(transition_detected, new_regime, rule_adjustments)\<close>
  and appends to \<open>adjustment_history\<close> when a transition is detected.
\<close>

definition detect_regime_transition ::
  "MarketState \<Rightarrow> MarketState option \<Rightarrow> transition_log list
     \<Rightarrow> (error + bool \<times> RegimeType \<times> RuleAdjustment) \<times> transition_log list" where
  "detect_regime_transition current_state previous_state adjustment_history =
     (let new_regime = classify_regime_comprehensive current_state
      in case previous_state of
           None \<Rightarrow> (Inr (True, new_regime, RuleAdjustment_default), adjustment_history)
         | Some previous \<Rightarrow>
             (let previous_regime = regime previous;
                  transition_detected = (new_regime \<noteq> previous_regime)
              in (case calculate_transition_adjustments current_state previous of
                    Inl e \<Rightarrow> (Inl e, adjustment_history)
                  | Inr base_adjustment \<Rightarrow>
                      (let rule_adjustment =
                             (case check_emergency_protocols current_state previous of
                                None \<Rightarrow> base_adjustment
                              | Some emergency_adjustment \<Rightarrow>
                                  combine_adjustments base_adjustment emergency_adjustment)
                       in (Inr (transition_detected, new_regime, rule_adjustment),
                           if transition_detected
                           then log_transition previous_regime new_regime current_state
                                  rule_adjustment adjustment_history
                           else adjustment_history)))))"

text \<open>
  The rule bundle of a regime: the dictionaries of
  \<open>IntegratedRiskOverlay.regime_configurations\<close>. Every configuration defines every
  key, so a bundle is a record and the \<open>in\<close> tests and \<open>.get\<close> defaults of the
  source, which concern absent keys, do not appear. The upper end of \<open>vix_range\<close> is
  \<open>None\<close> for \<open>float('inf')\<close>.
\<close>

record rules =
  cfg_vix_range :: "real \<times> real option"
  cfg_stop_loss_pct :: real
  cfg_profit_levels :: "real list"
  cfg_position_scaling :: "real list"
  cfg_tr_stop_multiplier :: real
  cfg_tr_profit_multipliers :: "real list"
  cfg_max_hold_override :: int
  cfg_description :: string

text \<open>Python's \<open>int(x)\<close> on a float: truncation towards zero.\<close>

definition py_int :: "real \<Rightarrow> int" where
  "py_int x = (if x \<ge> 0 then \<lfloor>x\<rfloor> else \<lceil>x\<rceil>)"

definition apply_dynamic_adjustments :: "rules \<Rightarrow> RuleAdjustment \<Rightarrow> rules" where
  "apply_dynamic_adjustments base_rules adjustment =
     base_rules
       \<lparr>cfg_stop_loss_pct := cfg_stop_loss_pct base_rules * stop_multiplier adjustment,
        cfg_profit_levels :=
          map (\<lambda>level. level * profit_multiplier adjustment) (cfg_profit_levels base_rules),
        cfg_tr_stop_multiplier := cfg_tr_stop_multiplier base_rules * stop_multiplier adjustment,
        cfg_tr_profit_multipliers :=
          map (\<lambda>mult. mult * profit_multiplier adjustment) (cfg_tr_profit_multipliers base_rules),
        cfg_max_hold_override :=
          (if urgency_factor adjustment > 1.0
           then max 1 (py_int (real_of_int (cfg_max_hold_override base_rules) / urgency_factor adjustment))
           else cfg_max_hold_override base_rules)\<rparr>"

text \<open>
  A float that may be infinite or nan. \<open>rolling_tr\<close> in \<open>calculate_adaptive_stop\<close> is
  the result of \<open>np.mean\<close>, a numpy float; when it is positive the volatility factor,
  the true-range stop distance and the quotient by the entry price are numpy floats
  too, and numpy's division by zero warns and returns an infinity with the sign of the
  dividend, or nan for zero by zero, where Python's raises. (A zero entry price is
  taken to be +0.0.)
\<close>

datatype float_value = Finite real | PosInf | NegInf | NaN

definition np_divide_by_zero :: "real \<Rightarrow> float_value" where
  "np_divide_by_zero x = (if x > 0 then PosInf else if x < 0 then NegInf else NaN)"

fun float_neg :: "float_value \<Rightarrow> float_value" where
  "float_neg (Finite x) = Finite (- x)"
| "float_neg PosInf = NegInf"
| "float_neg NegInf = PosInf"
| "float_neg NaN = NaN"

text \<open>The dictionary returned by \<open>AdaptiveStopManager.calculate_adaptive_stop\<close>.\<close>

record stop_data =
  sd_stop_level :: real
  sd_stop_pct :: real
  sd_regime :: string
  sd_base_stop :: real
  sd_tr_stop :: float_value
  sd_volatility_factor :: real
  sd_adjustment_applied :: "reason_piece list"
  sd_transition_detected :: bool

text \<open>
  \<open>calculate_adaptive_stop\<close> changes two pieces of state: the regime manager's
  \<open>adjustment_history\<close> and its own \<open>rolling_true_ranges\<close>, kept per symbol and
  cut to the last five entries (\<open>xs[-5:]\<close>). \<open>np.mean\<close> is the sum over the length
  of a list that is never empty here.

  With an entry price of zero the division \<open>tr_stop_distance / entry_price\<close> raises
  when \<open>rolling_tr\<close> is not positive (the volatility factor is then the Python float
  1.0). When \<open>rolling_tr\<close> is positive the quotient is infinite or nan, and so is
  \<open>tr_stop_pct\<close>, its negation times 100. Python's \<open>min(a, b)\<close> is \<open>b\<close> if \<open>b < a\<close> and
  \<open>a\<close> otherwise, and \<open>max(a, b)\<close> is \<open>b\<close> if \<open>b > a\<close> and \<open>a\<close> otherwise, and every
  comparison with nan is false: so \<open>min(base_stop_pct, tr_stop_pct)\<close> is minus infinity
  when \<open>tr_stop_pct\<close> is, and \<open>base_stop_pct\<close> when it is plus infinity or nan, and
  \<open>max\<close> of minus infinity and -25.0 is -25.0.
\<close>

definition calculate_adaptive_stop ::
  "string \<Rightarrow> real \<Rightarrow> real \<Rightarrow> rules \<Rightarrow> MarketState \<Rightarrow> MarketState option
     \<Rightarrow> transition_log list \<times> (string \<rightharpoonup> real list)
     \<Rightarrow> (error + stop_data) \<times> (transition_log list \<times> (string \<rightharpoonup> real list))" where
  "calculate_adaptive_stop ticker entry current_true_range base_rules market_state previous_state st =
     (case detect_regime_transition market_state previous_state (fst st) of
        (Inl e, history) \<Rightarrow> (Inl e, (history, snd st))
      | (Inr (transition_detected, new_regime, adjustment), history) \<Rightarrow>
          (let adjusted_rules = apply_dynamic_adjustments base_rules adjustment;
               appended = (case snd st ticker of None \<Rightarrow> [] | Some trs \<Rightarrow> trs) @ [current_true_range];
               kept = (if length appended > 5 then drop (length appended - 5) appended else appended);
               rolling_true_ranges = (snd st)(ticker \<mapsto> kept);
               rolling_tr = sum_list kept / real (length kept);
               volatility_factor = (if rolling_tr > 0 then current_true_range / rolling_tr else 1.0);
               base_stop_pct = cfg_stop_loss_pct adjusted_rules;
               tr_multiplier = cfg_tr_stop_multiplier adjusted_rules;
               adjusted_tr_multiplier = tr_multiplier * volatility_factor;
               tr_stop_distance = current_true_range * adjusted_tr_multiplier
           in if entry = 0 \<and> \<not> rolling_tr > 0
              then (Inl ZeroDivisionError, (history, rolling_true_ranges))
              else
                (let tr_stop_pct =
                       (if entry = 0 then float_neg (np_divide_by_zero tr_stop_distance)
                        else Finite (- (tr_stop_distance / entry) * 100));
                     final_stop_pct =
                       (case tr_stop_pct of
                          Finite tr \<Rightarrow> max (min base_stop_pct tr) (- 25.0)
                        | NegInf \<Rightarrow> - 25.0
                        | PosInf \<Rightarrow> max base_stop_pct (- 25.0)
                        | NaN \<Rightarrow> max base_stop_pct (- 25.0));
                     final_stop_pct = min final_stop_pct (- 2.0);
                     stop_level = entry * (1 + final_stop_pct / 100)
                 in (Inr \<lparr>sd_stop_level = stop_level, sd_stop_pct = final_stop_pct,
                          sd_regime = regime_value new_regime, sd_base_stop = base_stop_pct,
                          sd_tr_stop = tr_stop_pct, sd_volatility_factor = volatility_factor,
                          sd_adjustment_applied =
                            (if reason_nonempty (reason adjustment) then reason adjustment
                             else [Txt ''none'']),
                          sd_transition_detected = transition_detected\<rparr>,
                     (history, rolling_true_ranges)))))"

section \<open>integrated\_overlay\_system.py\<close>

text \<open>
  The four configurations, and \<open>regime_configurations\<close> in the order of the dictionary
  literal, which is the order \<open>classify_regime\<close> walks.
\<close>

definition crisis_opportunity_rules :: rules where
  "crisis_opportunity_rules =
     \<lparr>cfg_vix_range = (50, None), cfg_stop_loss_pct = - 15.0, cfg_profit_levels = [20, 35, 50],
      cfg_position_scaling = [25, 50, 100], cfg_tr_stop_multiplier = 2.5,
      cfg_tr_profit_multipliers = [3.0, 5.0, 7.0], cfg_max_hold_override = 4,
      cfg_description = ''Crisis: Erweiterte Stops + Aggressive Profit-Taking''\<rparr>"

definition high_vol_stress_rules :: rules where
  "high_vol_stress_rules =
     \<lparr>cfg_vix_range = (30, Some 50), cfg_stop_loss_pct = - 12.0, cfg_profit_levels = [15, 28, 45],
      cfg_position_scaling = [25, 50, 100], cfg_tr_stop_multiplier = 2.0,
      cfg_tr_profit_multipliers = [2.5, 4.0, 6.0], cfg_max_hold_override = 3,
      cfg_description = ''High-Vol: Moderate Balance beider Komponenten''\<rparr>"

definition bull_normal_rules :: rules where
  "bull_normal_rules =
     \<lparr>cfg_vix_range = (15, Some 30), cfg_stop_loss_pct = - 8.0, cfg_profit_levels = [12, 25, 40],
      cfg_position_scaling = [25, 50, 100], cfg_tr_stop_multiplier = 1.8,
      cfg_tr_profit_multipliers = [2.0, 3.5, 5.5], cfg_max_hold_override = 3,
      cfg_description = ''Bull: Standard defensive + moderate offensive''\<rparr>"

definition low_vol_complacency_rules :: rules where
  "low_vol_complacency_rules =
     \<lparr>cfg_vix_range = (0, Some 15), cfg_stop_loss_pct = - 5.0, cfg_profit_levels = [8, 15, 25],
      cfg_position_scaling = [30, 60, 100], cfg_tr_stop_multiplier = 1.2,
      cfg_tr_profit_multipliers = [1.8, 3.0, 4.5], cfg_max_hold_override = 2,
      cfg_description = ''Low-Vol: Enge Stops + fruehe Gewinnmitnahme''\<rparr>"

definition regime_configurations :: "(string \<times> rules) list" where
  "regime_configurations =
     [(''crisis_opportunity'', crisis_opportunity_rules),
      (''high_vol_stress'', high_vol_stress_rules),
      (''bull_normal'', bull_normal_rules),
      (''low_vol_complacency'', low_vol_complacency_rules)]"

fun classify_regime_in :: "(string \<times> rules) list \<Rightarrow> real \<Rightarrow> string" where
  "classify_regime_in [] vix = ''bull_normal''"
| "classify_regime_in ((name, config) # rest) vix =
     (case cfg_vix_range config of
        (vix_min, vix_max) \<Rightarrow>
          if vix_min \<le> vix \<and> (case vix_max of None \<Rightarrow> True | Some m \<Rightarrow> vix < m) then name
          else classify_regime_in rest vix)"

definition classify_regime :: "real \<Rightarrow> string" where
  "classify_regime vix = classify_regime_in regime_configurations vix"

text \<open>The dictionary returned by \<open>calculate_dynamic_stop\<close>.\<close>

record dynamic_stop =
  ds_price :: real
  ds_pct :: real
  ds_method :: string

definition calculate_dynamic_stop ::
  "real \<Rightarrow> rules \<Rightarrow> real \<Rightarrow> real option \<Rightarrow> error + dynamic_stop" where
  "calculate_dynamic_stop entry config true_range t2108 =
     (let base_stop_pct = cfg_stop_loss_pct config
      in if entry = 0 then Inl ZeroDivisionError
         else
           (let tr_stop_pct = - (true_range * cfg_tr_stop_multiplier config / entry) * 100;
                final_stop_pct = min base_stop_pct tr_stop_pct;
                final_stop_pct =
                  (case t2108 of
                     None \<Rightarrow> final_stop_pct
                   | Some t \<Rightarrow>
                       if t < 20 then final_stop_pct * 0.8
                       else if t > 60 then final_stop_pct * 1.2
                       else final_stop_pct)
            in Inr \<lparr>ds_price = entry * (1 + final_stop_pct / 100), ds_pct = final_stop_pct,
                    ds_method = (if tr_stop_pct < base_stop_pct then ''tr_based'' else ''pct_based'')\<rparr>))"

text \<open>One entry of the list returned by \<open>calculate_dynamic_profits\<close>.\<close>

record profit_target =
  pt_level :: nat
  pt_price :: real
  pt_pct :: real
  pt_position_to_close :: real
  pt_method :: string

text \<open>
  The loop over \<open>enumerate(zip(profit_levels, tr_profit_multipliers))\<close>, the list built
  so far as accumulator. \<open>position_scaling[i]\<close> raises beyond the end of the list.
\<close>

fun dynamic_profits_loop ::
  "real \<Rightarrow> rules \<Rightarrow> real \<Rightarrow> (nat \<times> real \<times> real) list \<Rightarrow> profit_target list
     \<Rightarrow> error + profit_target list" where
  "dynamic_profits_loop entry config true_range [] profit_targets = Inr profit_targets"
| "dynamic_profits_loop entry config true_range ((i, base_pct, tr_multiplier) # rest) profit_targets =
     (let base_target = entry * (1 + base_pct / 100);
          tr_target = entry + (true_range * tr_multiplier);
          final_price = max base_target tr_target
      in if entry = 0 then Inl ZeroDivisionError
         else if i \<ge> length (cfg_position_scaling config) then Inl IndexError
         else
           (let final_pct = ((final_price - entry) / entry) * 100;
                position_to_close =
                  cfg_position_scaling config ! i -
                    (if i > 0 then cfg_position_scaling config ! (i - 1) else 0)
            in dynamic_profits_loop entry config true_range rest
                 (profit_targets @
                    [\<lparr>pt_level = i + 1, pt_price = final_price, pt_pct = final_pct,
                      pt_position_to_close = position_to_close,
                      pt_method = (if tr_target > base_target then ''tr_based'' else ''pct_based'')\<rparr>])))"

definition calculate_dynamic_profits :: "real \<Rightarrow> rules \<Rightarrow> real \<Rightarrow> error + profit_target list" where
  "calculate_dynamic_profits entry config true_range =
     dynamic_profits_loop entry config true_range
       (enumerate 0 (zip (cfg_profit_levels config) (cfg_tr_profit_multipliers config))) []"

section \<open>profit\_taking\_system.py\<close>

record profit_rules =
  pr_profit_levels :: "real list"
  pr_position_scaling :: "real list"
  pr_true_range_multipliers :: "real list"
  pr_description :: string

definition regime_rules :: "(string \<times> profit_rules) list" where
  "regime_rules =
     [(''crisis_opportunity'',
        \<lparr>pr_profit_levels = [20, 35, 50], pr_position_scaling = [25, 50, 100],
         pr_true_range_multipliers = [3.0, 5.0, 7.0],
         pr_description = ''Crisis: Aggressive Profit-Taking fuer Rebound-Opportunities''\<rparr>),
      (''high_vol_stress'',
        \<lparr>pr_profit_levels = [15, 28, 45], pr_position_scaling = [25, 50, 100],
         pr_true_range_multipliers = [2.5, 4.0, 6.0],
         pr_description = ''High-Vol: Moderate Profit-Taking bei Volatilitaet''\<rparr>),
      (''bull_normal'',
        \<lparr>pr_profit_levels = [12, 25, 40], pr_position_scaling = [25, 50, 100],
         pr_true_range_multipliers = [2.0, 3.5, 5.5],
         pr_description = ''Bull: Standard Profit-Taking fuer normale Bedingungen''\<rparr>),
      (''low_vol_complacency'',
        \<lparr>pr_profit_levels = [8, 15, 25], pr_position_scaling = [30, 60, 100],
         pr_true_range_multipliers = [1.8, 3.0, 4.5],
         pr_description = ''Low-Vol: Konservative Profit-Taking bei geringer Volatilitaet''\<rparr>)]"

text \<open>\<open>RegimeProfitTakingManager.classify_regime\<close>.\<close>

definition profit_taking_classify_regime :: "real \<Rightarrow> string" where
  "profit_taking_classify_regime vix =
     (if vix \<ge> 50 then ''crisis_opportunity''
      else if vix \<ge> 30 then ''high_vol_stress''
      else if vix \<ge> 15 then ''bull_normal''
      else ''low_vol_complacency'')"

text \<open>One entry of \<open>profit_targets\<close> in the result of \<open>calculate_profit_levels\<close>.\<close>

record profit_level =
  pl_level :: nat
  pl_price_target :: real
  pl_profit_pct :: real
  pl_position_to_close :: real
  pl_cumulative_closed :: real
  pl_remaining_position :: real
  pl_base_target :: real
  pl_tr_target :: real
  pl_method :: string

text \<open>
  The loop over \<open>enumerate(zip(profit_levels, position_scaling, true_range_multipliers))\<close>.
  \<open>profit_targets[i-1]\<close> is the entry appended by the iteration before, so the index is
  in range.
\<close>

fun profit_levels_loop ::
  "real \<Rightarrow> real \<Rightarrow> (nat \<times> real \<times> real \<times> real) list \<Rightarrow> profit_level list
     \<Rightarrow> error + profit_level list" where
  "profit_levels_loop entry true_range [] profit_targets = Inr profit_targets"
| "profit_levels_loop entry true_range ((i, base_pct, position_pct, tr_multiplier) # rest) profit_targets =
     (let base_target = entry * (1 + base_pct / 100);
          tr_target = entry + (true_range * tr_multiplier);
          final_target = max base_target tr_target
      in if entry = 0 then Inl ZeroDivisionError
         else if i > 0 \<and> i - 1 \<ge> length profit_targets then Inl IndexError
         else
           (let final_pct = ((final_target - entry) / entry) * 100
            in profit_levels_loop entry true_range rest
                 (profit_targets @
                    [\<lparr>pl_level = i + 1, pl_price_target = final_target, pl_profit_pct = final_pct,
                      pl_position_to_close =
                        position_pct -
                          (if i > 0 then pl_position_to_close (profit_targets ! (i - 1)) else 0),
                      pl_cumulative_closed = position_pct,
                      pl_remaining_position = 100 - position_pct,
                      pl_base_target = base_target, pl_tr_target = tr_target,
                      pl_method = (if tr_target > base_target then ''tr_based'' else ''pct_based'')\<rparr>])))"

text \<open>The result carries the regime, the targets and the rules used.\<close>

definition calculate_profit_levels ::
  "real \<Rightarrow> real \<Rightarrow> real \<Rightarrow> string option
     \<Rightarrow> error + string \<times> profit_level list \<times> profit_rules" where
  "calculate_profit_levels entry vix true_range regime_opt =
     (let regime_name = (case regime_opt of None \<Rightarrow> profit_taking_classify_regime vix | Some r \<Rightarrow> r)
      in case map_of regime_rules regime_name of
           None \<Rightarrow> Inl KeyError
         | Some rls \<Rightarrow>
             (case profit_levels_loop entry true_range
                     (enumerate 0 (zip (pr_profit_levels rls)
                        (zip (pr_position_scaling rls) (pr_true_range_multipliers rls)))) [] of
                Inl e \<Rightarrow> Inl e
              | Inr profit_targets \<Rightarrow> Inr (regime_name, profit_targets, rls)))"

section \<open>ultimate\_implementation.py\<close>

record TradePosition =
  symbol :: string
  entry_price :: real
  position_size :: real
  regime_at_entry :: string
  vix_at_entry :: real
  stop_level :: real
  profit_levels :: "real list"
  profit_scales :: "real list"
  stop_triggered :: bool
  profit_levels_hit :: "nat list"
  remaining_position :: real
  realized_pnl :: real
  max_profit_seen :: real
  max_loss_seen :: real
  days_held :: nat

text \<open>The entries of \<open>trade_history\<close>: the opening and the closing log.\<close>

record opening_log =
  ol_symbol :: string
  ol_entry_price :: real
  ol_regime :: string
  ol_vix :: real
  ol_stop_level :: real
  ol_profit_targets :: "real list"
  ol_adjustments_applied :: "reason_piece list"

record closing_log =
  cl_symbol :: string
  cl_entry_price :: real
  cl_exit_price :: real
  cl_total_return_pct :: real
  cl_days_held :: nat
  cl_reason :: string
  cl_regime_at_entry :: string
  cl_profit_levels_hit :: nat
  cl_stop_triggered :: bool
  cl_max_profit_seen :: real
  cl_max_loss_seen :: real

datatype trade_log = POSITION_OPENED opening_log | POSITION_CLOSED closing_log

text \<open>
  The entries of \<open>actions_taken\<close>. \<open>STOP_LOSS_EXECUTED\<close> and \<open>TIME_BASED_EXIT\<close> carry
  price, position closed and pnl; \<open>PROFIT_TAKING_LEVEL\<close> carries the level number,
  price, position closed, remaining position, pnl and profit in percent;
  \<open>REGIME_ADJUSTMENT\<close> carries old and new regime, old and new stop and the reason.
\<close>

datatype action =
    STOP_LOSS_EXECUTED real real real
  | PROFIT_TAKING_LEVEL nat real real real real real
  | REGIME_ADJUSTMENT string string real real "reason_piece list"
  | TIME_BASED_EXIT real real real

text \<open>
  The state of an \<open>UltimateRiskManager\<close>. \<open>adjustment_history\<close> is that of its
  \<open>regime_manager\<close>, which the \<open>stop_manager\<close> shares; \<open>rolling_true_ranges\<close> is that
  of the \<open>stop_manager\<close>; \<open>max_position_size\<close> is the entry of \<open>config\<close> that
  \<open>open_position\<close> reads.
\<close>

record manager =
  max_position_size :: real
  active_positions :: "string \<rightharpoonup> TradePosition"
  performance_history :: "real list"
  trade_history :: "trade_log list"
  regime_history :: "RegimeType list"
  current_market_state :: "MarketState option"
  previous_market_state :: "MarketState option"
  adjustment_history :: "transition_log list"
  rolling_true_ranges :: "string \<rightharpoonup> real list"

definition init_manager :: manager where
  "init_manager =
     \<lparr>max_position_size = 100.0, active_positions = Map.empty, performance_history = [],
      trade_history = [], regime_history = [], current_market_state = None,
      previous_market_state = None, adjustment_history = [], rolling_true_ranges = Map.empty\<rparr>"

text \<open>The dictionary returned by \<open>open_position\<close>.\<close>

record open_result =
  or_position_id :: string
  or_entry_price :: real
  or_regime :: string
  or_stop_level :: real
  or_stop_distance_pct :: real
  or_profit_targets :: "real list"
  or_expected_hold_days :: int
  or_regime_transition_detected :: bool
  or_market_adjustments :: "reason_piece list"

text \<open>
  \<open>market_data\<close> is a dictionary from key to number; an absent key is \<open>None\<close>.
  The last division, for the stop distance returned, comes after the profit ladder,
  which has divided by the entry price at its first level.
\<close>

definition open_position ::
  "string \<Rightarrow> real \<Rightarrow> (string \<rightharpoonup> real) \<Rightarrow> real option \<Rightarrow> manager
     \<Rightarrow> (error + open_result) \<times> manager" where
  "open_position ticker entry market_data position_size_arg self =
     (if ticker \<in> dom (active_positions self) then (Inl DuplicatePosition, self)
      else
        (let psize = (case position_size_arg of None \<Rightarrow> max_position_size self | Some p \<Rightarrow> p);
             vix = (case market_data ''vix'' of None \<Rightarrow> 20.0 | Some v \<Rightarrow> v);
             t2108 = market_data ''t2108'';
             momentum = market_data ''momentum_ratio'';
             true_range = (case market_data ''true_range'' of None \<Rightarrow> entry * 0.02 | Some v \<Rightarrow> v);
             new_state = \<lparr>vix_level = vix, t2108_level = t2108, momentum_ratio = momentum,
                          day = length (regime_history self) + 1, regime = BULL_NORMAL\<rparr>;
             self1 = self\<lparr>previous_market_state := current_market_state self,
                          current_market_state := Some new_state\<rparr>;
             regime_name = classify_regime vix
         in (case map_of regime_configurations regime_name of
               None \<Rightarrow> (Inl KeyError, self1)
             | Some base_rules \<Rightarrow>
                (case detect_regime_transition new_state (previous_market_state self1)
                        (adjustment_history self1) of
                   (Inl e, history) \<Rightarrow> (Inl e, self1\<lparr>adjustment_history := history\<rparr>)
                 | (Inr (transition_detected, new_regime, adjustments), history) \<Rightarrow>
                    (let self2 = self1\<lparr>adjustment_history := history\<rparr>;
                         adjusted_rules = apply_dynamic_adjustments base_rules adjustments
                     in (case calculate_adaptive_stop ticker entry true_range adjusted_rules new_state
                                 (previous_market_state self2)
                                 (adjustment_history self2, rolling_true_ranges self2) of
                           (Inl e, st) \<Rightarrow>
                             (Inl e, self2\<lparr>adjustment_history := fst st, rolling_true_ranges := snd st\<rparr>)
                         | (Inr stop, st) \<Rightarrow>
                            (let self3 = self2\<lparr>adjustment_history := fst st,
                                                rolling_true_ranges := snd st\<rparr>
                             in (case calculate_dynamic_profits entry adjusted_rules true_range of
                                   Inl e \<Rightarrow> (Inl e, self3)
                                 | Inr profit_targets \<Rightarrow>
                                    (let position =
                                           \<lparr>symbol = ticker, entry_price = entry, position_size = psize,
                                            regime_at_entry = regime_name, vix_at_entry = vix,
                                            stop_level = sd_stop_level stop,
                                            profit_levels = map pt_price profit_targets,
                                            profit_scales = cfg_position_scaling adjusted_rules,
                                            stop_triggered = False, profit_levels_hit = [],
                                            remaining_position = 100.0, realized_pnl = 0.0,
                                            max_profit_seen = 0.0, max_loss_seen = 0.0, days_held = 0\<rparr>;
                                         opening =
                                           \<lparr>ol_symbol = ticker, ol_entry_price = entry,
                                            ol_regime = regime_name, ol_vix = vix,
                                            ol_stop_level = stop_level position,
                                            ol_profit_targets = profit_levels position,
                                            ol_adjustments_applied =
                                              (if reason_nonempty (reason adjustments)
                                               then reason adjustments else [Txt ''none''])\<rparr>;
                                         self4 = self3\<lparr>active_positions :=
                                                          (active_positions self3)(ticker \<mapsto> position),
                                                        trade_history :=
                                                          trade_history self3 @ [POSITION_OPENED opening]\<rparr>
                                     in if entry = 0 then (Inl ZeroDivisionError, self4)
                                        else
                                          (Inr \<lparr>or_position_id = ticker, or_entry_price = entry,
                                                 or_regime = regime_name,
                                                 or_stop_level = stop_level position,
                                                 or_stop_distance_pct =
                                                   ((stop_level position - entry) / entry) * 100,
                                                 or_profit_targets = profit_levels position,
                                                 or_expected_hold_days = cfg_max_hold_override adjusted_rules,
                                                 or_regime_transition_detected = transition_detected,
                                                 or_market_adjustments = reason adjustments\<rparr>,
                                           self4))))))))))"

text \<open>
  The dictionaries returned by \<open>update_position\<close>: the one of a closed and the one of
  an active position. \<open>cr_position\<close> and \<open>ar_position\<close> are not keys of the source's
  dictionary: they record the \<open>TradePosition\<close> object as the call leaves it, which for
  a closed position is the object just deleted from \<open>active_positions\<close>.
\<close>

record closed_result =
  cr_symbol :: string
  cr_actions :: "action list"
  cr_final_pnl :: real
  cr_days_held :: nat
  cr_position :: TradePosition

record active_result =
  ar_symbol :: string
  ar_actions :: "action list"
  ar_current_pnl :: real
  ar_realized_pnl :: real
  ar_remaining_position :: real
  ar_days_held :: nat
  ar_max_profit_seen :: real
  ar_max_loss_seen :: real
  ar_position :: TradePosition

datatype update_result = CLOSED closed_result | ACTIVE active_result

fun position_status :: "update_result \<Rightarrow> string" where
  "position_status (CLOSED r) = ''CLOSED''"
| "position_status (ACTIVE r) = ''ACTIVE''"

fun result_position :: "update_result \<Rightarrow> TradePosition" where
  "result_position (CLOSED r) = cr_position r"
| "result_position (ACTIVE r) = ar_position r"

text \<open>
  \<open>position\<close> in \<open>update_position\<close> is the object held in \<open>active_positions\<close>: an
  assignment to one of its fields is a write to the dictionary's entry.
\<close>

definition store_position :: "string \<Rightarrow> TradePosition \<Rightarrow> manager \<Rightarrow> manager" where
  "store_position ticker position self =
     self\<lparr>active_positions := (active_positions self)(ticker \<mapsto> position)\<rparr>"

definition close_position :: "string \<Rightarrow> string \<Rightarrow> real \<Rightarrow> manager \<Rightarrow> error + manager" where
  "close_position ticker why exit_price self =
     (case active_positions self ticker of
        None \<Rightarrow> Inr self
      | Some position \<Rightarrow>
          if remaining_position position > 0 \<and> entry_price position = 0 then Inl ZeroDivisionError
          else
            (let total_return_pct =
                   (if remaining_position position > 0
                    then realized_pnl position +
                           ((exit_price - entry_price position) / entry_price position) *
                             (remaining_position position / 100)
                    else realized_pnl position);
                 closing =
                   \<lparr>cl_symbol = ticker, cl_entry_price = entry_price position,
                    cl_exit_price = exit_price, cl_total_return_pct = total_return_pct * 100,
                    cl_days_held = days_held position, cl_reason = why,
                    cl_regime_at_entry = regime_at_entry position,
                    cl_profit_levels_hit = length (profit_levels_hit position),
                    cl_stop_triggered = stop_triggered position,
                    cl_max_profit_seen = max_profit_seen position * 100,
                    cl_max_loss_seen = max_loss_seen position * 100\<rparr>
             in Inr (self\<lparr>trade_history := trade_history self @ [POSITION_CLOSED closing],
                          performance_history := performance_history self @ [total_return_pct],
                          active_positions := (active_positions self)(ticker := None)\<rparr>)))"

text \<open>The call of \<open>_close_position\<close> followed by the return of the closed dictionary.\<close>

definition close_and_return ::
  "string \<Rightarrow> string \<Rightarrow> real \<Rightarrow> TradePosition \<Rightarrow> action list \<Rightarrow> manager
     \<Rightarrow> (error + update_result) \<times> manager" where
  "close_and_return ticker why exit_price position actions_taken self =
     (let self1 = store_position ticker position self
      in case close_position ticker why exit_price self1 of
           Inl e \<Rightarrow> (Inl e, self1)
         | Inr self2 \<Rightarrow>
             (Inr (CLOSED \<lparr>cr_symbol = ticker, cr_actions = actions_taken,
                           cr_final_pnl = realized_pnl position,
                           cr_days_held = days_held position, cr_position = position\<rparr>),
              self2))"

text \<open>PRIORITY 1, the body of the stop-loss branch.\<close>

definition execute_stop_loss ::
  "string \<Rightarrow> TradePosition \<Rightarrow> manager \<Rightarrow> (error + update_result) \<times> manager" where
  "execute_stop_loss ticker position self =
     (let stop_pnl =
            ((stop_level position - entry_price position) / entry_price position) *
              (remaining_position position / 100);
          stopped = position\<lparr>realized_pnl := realized_pnl position + stop_pnl,
                             stop_triggered := True, remaining_position := 0\<rparr>;
          actions_taken =
            [STOP_LOSS_EXECUTED (stop_level stopped) (remaining_position stopped) stop_pnl]
      in close_and_return ticker ''stop_loss'' (stop_level stopped) stopped actions_taken self)"

text \<open>
  PRIORITY 2, the loop over \<open>enumerate(zip(profit_levels, profit_scales))\<close>. It returns
  the position, the actions and, when the position was closed inside the loop, the
  profit target at which it was. The source's loop goes on to the next level after one
  has executed.
\<close>

fun profit_taking_loop ::
  "real \<Rightarrow> (nat \<times> real \<times> real) list \<Rightarrow> TradePosition \<Rightarrow> action list
     \<Rightarrow> TradePosition \<times> action list \<times> real option" where
  "profit_taking_loop high_price [] position actions_taken = (position, actions_taken, None)"
| "profit_taking_loop high_price ((i, profit_target, scale_pct) # rest) position actions_taken =
     (if high_price \<ge> profit_target \<and> i \<notin> set (profit_levels_hit position)
           \<and> remaining_position position > 0
      then
        (let position_to_close = scale_pct - (if i > 0 then profit_scales position ! (i - 1) else 0);
             profit_pnl =
               ((profit_target - entry_price position) / entry_price position) *
                 (position_to_close / 100);
             taken = position\<lparr>realized_pnl := realized_pnl position + profit_pnl,
                              profit_levels_hit := profit_levels_hit position @ [i],
                              remaining_position := remaining_position position - position_to_close\<rparr>;
             actions_now =
               actions_taken @
                 [PROFIT_TAKING_LEVEL (i + 1) profit_target position_to_close
                    (remaining_position taken) profit_pnl
                    (((profit_target - entry_price position) / entry_price position) * 100)]
         in if remaining_position taken \<le> 0 then (taken, actions_now, Some profit_target)
            else profit_taking_loop high_price rest taken actions_now)
      else profit_taking_loop high_price rest position actions_taken)"

text \<open>PRIORITY 3, regime changes and adjustments.\<close>

definition check_regime_changes ::
  "(string \<rightharpoonup> real) \<Rightarrow> TradePosition \<Rightarrow> action list \<Rightarrow> manager
     \<Rightarrow> error + TradePosition \<times> action list \<times> manager" where
  "check_regime_changes market_data position actions_taken self =
     (let vix = (case market_data ''vix'' of None \<Rightarrow> vix_at_entry position | Some v \<Rightarrow> v)
      in if \<bar>vix - vix_at_entry position\<bar> > 15 then
           (let updated_market_state =
                  \<lparr>vix_level = vix, t2108_level = market_data ''t2108'',
                   momentum_ratio = market_data ''momentum_ratio'',
                   day = days_held position, regime = BULL_NORMAL\<rparr>
            in (case detect_regime_transition updated_market_state (current_market_state self)
                       (adjustment_history self) of
                  (Inl e, history) \<Rightarrow> Inl e
                | (Inr (transition_detected, new_regime, adjustments), history) \<Rightarrow>
                    (let self1 = self\<lparr>adjustment_history := history\<rparr>
                     in if transition_detected \<and> reason_nonempty (reason adjustments) then
                          (let original_stop = stop_level position;
                               stop_distance = \<bar>stop_level position - entry_price position\<bar>;
                               new_stop_distance = stop_distance * stop_multiplier adjustments;
                               adjusted = position\<lparr>stop_level := entry_price position - new_stop_distance\<rparr>
                           in Inr (adjusted,
                                   actions_taken @
                                     [REGIME_ADJUSTMENT (regime_at_entry position) (regime_value new_regime)
                                        original_stop (stop_level adjusted) (reason adjustments)],
                                   self1\<lparr>current_market_state := Some updated_market_state\<rparr>))
                        else Inr (position, actions_taken, self1))))
         else Inr (position, actions_taken, self))"

text \<open>PRIORITY 4, the time-based exit, and the return of the active dictionary.\<close>

definition check_time_exit ::
  "string \<Rightarrow> real \<Rightarrow> real \<Rightarrow> TradePosition \<Rightarrow> action list \<Rightarrow> manager
     \<Rightarrow> (error + update_result) \<times> manager" where
  "check_time_exit ticker close_price current_pnl_pct position actions_taken self =
     (let max_hold_days = 5
      in if days_held position \<ge> max_hold_days \<and> remaining_position position > 0 then
           (let time_exit_pnl = current_pnl_pct * (remaining_position position / 100);
                actions_now =
                  actions_taken @
                    [TIME_BASED_EXIT close_price (remaining_position position) time_exit_pnl];
                exited = position\<lparr>realized_pnl := realized_pnl position + time_exit_pnl,
                                  remaining_position := 0\<rparr>
            in close_and_return ticker ''time_exit'' close_price exited actions_now self)
         else
           (Inr (ACTIVE \<lparr>ar_symbol = ticker, ar_actions = actions_taken,
                         ar_current_pnl = current_pnl_pct, ar_realized_pnl = realized_pnl position,
                         ar_remaining_position = remaining_position position,
                         ar_days_held = days_held position,
                         ar_max_profit_seen = max_profit_seen position,
                         ar_max_loss_seen = max_loss_seen position, ar_position = position\<rparr>),
            store_position ticker position self))"

text \<open>The three prices read from \<open>current_price_data\<close>, with the defaults of \<open>.get\<close>.\<close>

definition high_of :: "(string \<rightharpoonup> real) \<Rightarrow> real" where
  "high_of current_price_data =
     (case current_price_data ''high'' of
        Some h \<Rightarrow> h
      | None \<Rightarrow> (case current_price_data ''close'' of Some c \<Rightarrow> c | None \<Rightarrow> 0))"

definition low_of :: "(string \<rightharpoonup> real) \<Rightarrow> real" where
  "low_of current_price_data =
     (case current_price_data ''low'' of
        Some l \<Rightarrow> l
      | None \<Rightarrow> (case current_price_data ''close'' of Some c \<Rightarrow> c | None \<Rightarrow> 0))"

definition close_of :: "(string \<rightharpoonup> real) \<Rightarrow> real" where
  "close_of current_price_data =
     (case current_price_data ''close'' of Some c \<Rightarrow> c | None \<Rightarrow> high_of current_price_data)"

definition update_position ::
  "string \<Rightarrow> (string \<rightharpoonup> real) \<Rightarrow> (string \<rightharpoonup> real) \<Rightarrow> manager
     \<Rightarrow> (error + update_result) \<times> manager" where
  "update_position ticker current_price_data market_data self =
     (case active_positions self ticker of
        None \<Rightarrow> (Inl PositionNotFound, self)
      | Some stored \<Rightarrow>
          (let counted = stored\<lparr>days_held := days_held stored + 1\<rparr>;
               high_price = high_of current_price_data;
               low_price = low_of current_price_data;
               close_price = close_of current_price_data
           in if entry_price counted = 0 then (Inl ZeroDivisionError, store_position ticker counted self)
              else
                (let current_pnl_pct = (close_price - entry_price counted) / entry_price counted;
                     position =
                       counted\<lparr>max_profit_seen :=
                                  max (max_profit_seen counted)
                                    ((high_price - entry_price counted) / entry_price counted),
                               max_loss_seen :=
                                  min (max_loss_seen counted)
                                    ((low_price - entry_price counted) / entry_price counted)\<rparr>
                 in if low_price \<le> stop_level position \<and> \<not> stop_triggered position
                         \<and> remaining_position position > 0
                    then execute_stop_loss ticker position self
                    else
                      (case profit_taking_loop high_price
                              (enumerate 0 (zip (profit_levels position) (profit_scales position)))
                              position [] of
                         (taken, actions_taken, Some profit_target) \<Rightarrow>
                           close_and_return ticker ''profit_taking_complete'' profit_target taken
                             actions_taken self
                       | (taken, actions_taken, None) \<Rightarrow>
                           (case check_regime_changes market_data taken actions_taken self of
                              Inl e \<Rightarrow> (Inl e, store_position ticker taken self)
                            | Inr (adjusted, actions_now, self1) \<Rightarrow>
                                check_time_exit ticker close_price current_pnl_pct adjusted
                                  actions_now self1)))))"

section \<open>Auxiliary notions for the statements\<close>

text \<open>
  The momentum block of \<open>_calculate_transition_adjustments\<close> divides the current by the
  previous momentum ratio. \<open>momentum_defined\<close> says that this division, if it is
  reached, has a non-zero divisor.
\<close>

definition momentum_defined :: "MarketState \<Rightarrow> MarketState option \<Rightarrow> bool" where
  "momentum_defined current previous_state =
     (case previous_state of
        None \<Rightarrow> True
      | Some previous \<Rightarrow>
          (case (momentum_ratio current, momentum_ratio previous) of
             (Some mc, Some mp) \<Rightarrow> mp \<noteq> 0
           | _ \<Rightarrow> True))"

text \<open>
  The bookkeeping at the head of \<open>update_position\<close>: one more day held, and the best
  and worst excursion seen so far.
\<close>

definition track_performance :: "TradePosition \<Rightarrow> (string \<rightharpoonup> real) \<Rightarrow> TradePosition" where
  "track_performance stored current_price_data =
     stored\<lparr>days_held := days_held stored + 1,
            max_profit_seen :=
              max (max_profit_seen stored)
                ((high_of current_price_data - entry_price stored) / entry_price stored),
            max_loss_seen :=
              min (max_loss_seen stored)
                ((low_of current_price_data - entry_price stored) / entry_price stored)\<rparr>"

text \<open>
  What \<open>open_position\<close> reads from \<open>market_data\<close>: the VIX and the true range with
  their defaults, and the snapshot it stores as the current market state.
\<close>

definition market_vix :: "(string \<rightharpoonup> real) \<Rightarrow> real" where
  "market_vix market_data = (case market_data ''vix'' of None \<Rightarrow> 20.0 | Some v \<Rightarrow> v)"

definition market_true_range :: "(string \<rightharpoonup> real) \<Rightarrow> real \<Rightarrow> real" where
  "market_true_range market_data entry =
     (case market_data ''true_range'' of None \<Rightarrow> entry * 0.02 | Some v \<Rightarrow> v)"

definition entry_state :: "(string \<rightharpoonup> real) \<Rightarrow> manager \<Rightarrow> MarketState" where
  "entry_state market_data self =
     \<lparr>vix_level = market_vix market_data, t2108_level = market_data ''t2108'',
      momentum_ratio = market_data ''momentum_ratio'',
      day = length (regime_history self) + 1, regime = BULL_NORMAL\<rparr>"

text \<open>
  An invariant of the active positions: none has its stop triggered or an entry price
  of zero, and one without a profit level hit has realized nothing and is whole.
\<close>

definition position_ok :: "TradePosition \<Rightarrow> bool" where
  "position_ok p \<longleftrightarrow>
     \<not> stop_triggered p \<and> entry_price p \<noteq> 0
     \<and> (profit_levels_hit p = [] \<longrightarrow> realized_pnl p = 0 \<and> remaining_position p = 100)"

definition manager_ok :: "manager \<Rightarrow> bool" where
  "manager_ok self \<longleftrightarrow> (\<forall>ticker p. active_positions self ticker = Some p \<longrightarrow> position_ok p)"

text \<open>
  The states of a manager that its two operations produce from the initial one,
  whatever the arguments and whether or not a call raises.
\<close>

inductive reachable :: "manager \<Rightarrow> bool" where
  reachable_init: "reachable init_manager"
| reachable_open:
    "reachable self \<Longrightarrow> reachable (snd (open_position ticker entry market_data position_size_arg self))"
| reachable_update:
    "reachable self \<Longrightarrow> reachable (snd (update_position ticker current_price_data market_data self))"

section \<open>Regime classification\<close>

text \<open>
  C8. Absent secondary factors (the breadth or the momentum reading is missing), the
  classifier maps a VIX in [0,15) to LOW\_VOL\_COMPLACENCY, in [15,30) to BULL\_NORMAL,
  in [30,50) to HIGH\_VOL\_STRESS and from 50 on to CRISIS\_OPPORTUNITY, the lower end
  of each band included; \<open>classify_regime\<close> of the overlay system names the same
  regime.
\<close>

theorem classify_regime_vix_bands:
  assumes "0 \<le> vix_level state"
      and "t2108_level state = None \<or> momentum_ratio state = None"
  shows "classify_regime_comprehensive state =
           (if vix_level state < 15 then LOW_VOL_COMPLACENCY
            else if vix_level state < 30 then BULL_NORMAL
            else if vix_level state < 50 then HIGH_VOL_STRESS
            else CRISIS_OPPORTUNITY)
         \<and> classify_regime (vix_level state) = regime_value (classify_regime_comprehensive state)"
  using assms
  by (auto simp: classify_regime_comprehensive_def classify_regime_def regime_configurations_def
        crisis_opportunity_rules_def high_vol_stress_rules_def bull_normal_rules_def
        low_vol_complacency_rules_def split: option.splits)

theorem classify_regime_vix_bands_witness:
  "classify_regime_comprehensive
     \<lparr>vix_level = 15, t2108_level = None, momentum_ratio = None, day = 1, regime = BULL_NORMAL\<rparr>
     = BULL_NORMAL
   \<and> classify_regime_comprehensive
     \<lparr>vix_level = 30, t2108_level = Some 10, momentum_ratio = None, day = 1, regime = BULL_NORMAL\<rparr>
     = HIGH_VOL_STRESS
   \<and> classify_regime_comprehensive
     \<lparr>vix_level = 50, t2108_level = None, momentum_ratio = Some 3, day = 1, regime = BULL_NORMAL\<rparr>
     = CRISIS_OPPORTUNITY
   \<and> classify_regime 15 = ''bull_normal''"
  using classify_regime_vix_bands
          [of "\<lparr>vix_level = 15, t2108_level = None, momentum_ratio = None, day = 1, regime = BULL_NORMAL\<rparr>"]
        classify_regime_vix_bands
          [of "\<lparr>vix_level = 30, t2108_level = Some 10, momentum_ratio = None, day = 1, regime = BULL_NORMAL\<rparr>"]
        classify_regime_vix_bands
          [of "\<lparr>vix_level = 50, t2108_level = None, momentum_ratio = Some 3, day = 1, regime = BULL_NORMAL\<rparr>"]
  by simp

section \<open>Regime transitions\<close>

text \<open>
  C9 as stated fails: without a previous snapshot the detection reports a transition
  (\<open>True\<close>), here for a first snapshot with a VIX of 20.
\<close>

theorem detect_without_previous_counterexample:
  "fst (detect_regime_transition
          \<lparr>vix_level = 20, t2108_level = None, momentum_ratio = None, day = 1, regime = BULL_NORMAL\<rparr>
          None [])
     = Inr (True, BULL_NORMAL, RuleAdjustment_default)"
  by (simp add: detect_regime_transition_def classify_regime_comprehensive_def)

text \<open>
  C9, amended. For every current snapshot, when the previous snapshot is absent, the
  detection reports a transition into the regime classified from the current snapshot,
  returns the default adjustment (all three factors 1.0, empty reason) and logs
  nothing.
\<close>

theorem detect_without_previous:
  "detect_regime_transition current_state None history =
     (Inr (True, classify_regime_comprehensive current_state,
           \<lparr>stop_multiplier = 1, profit_multiplier = 1, urgency_factor = 1, reason = []\<rparr>),
      history)"
  by (simp add: detect_regime_transition_def RuleAdjustment_default_def)

text \<open>
  Whether the detection returns at all: it does when the division of the momentum
  block is defined.
\<close>

lemma detect_regime_transition_returns:
  assumes "momentum_defined current previous_state"
  shows "\<exists>detected new_regime adjustment history'.
           detect_regime_transition current previous_state history =
             (Inr (detected, new_regime, adjustment), history')"
proof (cases previous_state)
  case None
  then show ?thesis by (auto simp: detect_regime_transition_def)
next
  case (Some previous)
  with assms obtain base where "calculate_transition_adjustments current previous = Inr base"
    by (auto simp: momentum_defined_def calculate_transition_adjustments_def Let_def
          split: option.splits)
  with Some show ?thesis
    by (simp add: detect_regime_transition_def Let_def)
qed

text \<open>
  C2 as stated fails: a breadth drop of 40 points triggers the breadth-collapse
  protocol, and the adjustment returned has the stop multiplier 0.42 and the profit
  multiplier 0.56, the protocol's 0.6 and 0.7 multiplied into the 0.7 and 0.8 of the
  base adjustment.
\<close>

theorem emergency_replaces_counterexample:
  "fst (detect_regime_transition
          \<lparr>vix_level = 20, t2108_level = Some 10, momentum_ratio = None, day = 2, regime = BULL_NORMAL\<rparr>
          (Some \<lparr>vix_level = 20, t2108_level = Some 50, momentum_ratio = None, day = 1, regime = BULL_NORMAL\<rparr>)
          [])
     = Inr (False, BULL_NORMAL,
            \<lparr>stop_multiplier = 0.42, profit_multiplier = 0.56, urgency_factor = 2.0,
             reason = [Txt ''Breadth collapse '', Fmt1 (- 40), Txt ''; '', Txt '' + '',
                       Txt ''EMERGENCY: Breadth collapse protocol activated'']\<rparr>)"
  by (simp add: detect_regime_transition_def classify_regime_comprehensive_def
        calculate_transition_adjustments_def vix_adjustments_def t2108_adjustments_def
        check_emergency_protocols_def combine_adjustments_def RuleAdjustment_default_def)

text \<open>
  C2, amended. For every pair of consecutive snapshots whose base adjustment is
  \<open>base\<close>, when an emergency condition holds the adjustment returned is \<open>base\<close>
  combined with the fixed values of the first protocol that applies, in the order
  breadth collapse (0.6, 0.7, 2.0), volatility explosion (1.5, 1.4, 0.7), momentum
  collapse (0.5, 0.6, 3.0): the stop and profit multipliers are the products, the
  urgency is the maximum, and the protocol's reason is appended to the base reason.
\<close>

theorem emergency_composes_with_base:
  assumes base: "calculate_transition_adjustments current previous = Inr base"
  shows "((\<exists>tc tp. t2108_level current = Some tc \<and> t2108_level previous = Some tp \<and> tc - tp < - 30) \<longrightarrow>
            fst (detect_regime_transition current (Some previous) history) =
              Inr (classify_regime_comprehensive current \<noteq> regime previous,
                   classify_regime_comprehensive current,
                   \<lparr>stop_multiplier = stop_multiplier base * 0.6,
                    profit_multiplier = profit_multiplier base * 0.7,
                    urgency_factor = max (urgency_factor base) 2.0,
                    reason = reason base @
                      [Txt '' + '', Txt ''EMERGENCY: Breadth collapse protocol activated'']\<rparr>))
       \<and> (\<not> (\<exists>tc tp. t2108_level current = Some tc \<and> t2108_level previous = Some tp \<and> tc - tp < - 30) \<and>
          vix_level current > 60 \<and> vix_level current - vix_level previous > 20 \<longrightarrow>
            fst (detect_regime_transition current (Some previous) history) =
              Inr (classify_regime_comprehensive current \<noteq> regime previous,
                   classify_regime_comprehensive current,
                   \<lparr>stop_multiplier = stop_multiplier base * 1.5,
                    profit_multiplier = profit_multiplier base * 1.4,
                    urgency_factor = max (urgency_factor base) 0.7,
                    reason = reason base @
                      [Txt '' + '', Txt ''EMERGENCY: Volatility explosion protocol activated'']\<rparr>))
       \<and> (\<not> (\<exists>tc tp. t2108_level current = Some tc \<and> t2108_level previous = Some tp \<and> tc - tp < - 30) \<and>
          \<not> (vix_level current > 60 \<and> vix_level current - vix_level previous > 20) \<and>
          (\<exists>mc mp. momentum_ratio current = Some mc \<and> momentum_ratio previous = Some mp \<and>
                   mc < 0.1 \<and> mp > 1.0) \<longrightarrow>
            fst (detect_regime_transition current (Some previous) history) =
              Inr (classify_regime_comprehensive current \<noteq> regime previous,
                   classify_regime_comprehensive current,
                   \<lparr>stop_multiplier = stop_multiplier base * 0.5,
                    profit_multiplier = profit_multiplier base * 0.6,
                    urgency_factor = max (urgency_factor base) 3.0,
                    reason = reason base @
                      [Txt '' + '', Txt ''EMERGENCY: Momentum collapse protocol activated'']\<rparr>))"
proof -
  have breadth:
    "check_emergency_protocols current previous =
       Some \<lparr>stop_multiplier = 0.6, profit_multiplier = 0.7, urgency_factor = 2.0,
             reason = [Txt ''EMERGENCY: Breadth collapse protocol activated'']\<rparr>"
    if "\<exists>tc tp. t2108_level current = Some tc \<and> t2108_level previous = Some tp \<and> tc - tp < - 30"
    using that by (auto simp: check_emergency_protocols_def)
  have vol:
    "check_emergency_protocols current previous =
       Some \<lparr>stop_multiplier = 1.5, profit_multiplier = 1.4, urgency_factor = 0.7,
             reason = [Txt ''EMERGENCY: Volatility explosion protocol activated'']\<rparr>"
    if "\<not> (\<exists>tc tp. t2108_level current = Some tc \<and> t2108_level previous = Some tp \<and> tc - tp < - 30)"
       "vix_level current > 60" "vix_level current - vix_level previous > 20"
    using that by (auto simp: check_emergency_protocols_def split: option.splits)
  have mom:
    "check_emergency_protocols current previous =
       Some \<lparr>stop_multiplier = 0.5, profit_multiplier = 0.6, urgency_factor = 3.0,
             reason = [Txt ''EMERGENCY: Momentum collapse protocol activated'']\<rparr>"
    if "\<not> (\<exists>tc tp. t2108_level current = Some tc \<and> t2108_level previous = Some tp \<and> tc - tp < - 30)"
       "\<not> (vix_level current > 60 \<and> vix_level current - vix_level previous > 20)"
       "\<exists>mc mp. momentum_ratio current = Some mc \<and> momentum_ratio previous = Some mp \<and>
                   mc < 0.1 \<and> mp > 1.0"
    using that by (auto simp: check_emergency_protocols_def split: option.splits)
  show ?thesis
    using base breadth vol mom
    by (simp add: detect_regime_transition_def combine_adjustments_def Let_def)
qed

theorem emergency_composes_with_base_witness:
  "fst (detect_regime_transition
          \<lparr>vix_level = 70, t2108_level = None, momentum_ratio = None, day = 2, regime = BULL_NORMAL\<rparr>
          (Some \<lparr>vix_level = 40, t2108_level = None, momentum_ratio = None, day = 1, regime = BULL_NORMAL\<rparr>)
          [])
     = Inr (True, CRISIS_OPPORTUNITY,
            \<lparr>stop_multiplier = 1.8 * 1.5, profit_multiplier = 1.4 * 1.4, urgency_factor = 1.0,
             reason = [Txt ''VIX spike +'', Fmt1 30, Txt ''; '', Txt '' + '',
                       Txt ''EMERGENCY: Volatility explosion protocol activated'']\<rparr>)"
proof -
  have base:
    "calculate_transition_adjustments
       \<lparr>vix_level = 70, t2108_level = None, momentum_ratio = None, day = 2, regime = BULL_NORMAL\<rparr>
       \<lparr>vix_level = 40, t2108_level = None, momentum_ratio = None, day = 1, regime = BULL_NORMAL\<rparr>
     = Inr \<lparr>stop_multiplier = 1.8, profit_multiplier = 1.4, urgency_factor = 1.0,
            reason = [Txt ''VIX spike +'', Fmt1 30, Txt ''; '']\<rparr>"
    by (simp add: calculate_transition_adjustments_def vix_adjustments_def
          RuleAdjustment_default_def)
  show ?thesis
    using emergency_composes_with_base [OF base, of "[]"]
    by (simp add: classify_regime_comprehensive_def)
qed

section \<open>Stop levels\<close>

text \<open>The two bounds applied one after the other leave a value between them.\<close>

lemma clamp_bounds:
  "- 25 \<le> min (max x (- 25.0)) (- 2.0 :: real) \<and> min (max x (- 25.0)) (- 2.0 :: real) \<le> - 2"
  by simp

text \<open>
  With a non-zero entry price and a detection that returns, the adaptive stop returns:
  the percentage is the lower of the percentage stop and the true-range stop, bounded
  below by -25 and then above by -2, and the level is the entry price moved by it.
\<close>

lemma calculate_adaptive_stop_result:
  assumes "detect_regime_transition market_state previous_state (fst st) =
             (Inr (detected, new_regime, adjustment), history')"
    and "entry \<noteq> 0"
  shows "\<exists>tr stop st'.
           calculate_adaptive_stop ticker entry current_true_range base_rules
             market_state previous_state st = (Inr stop, st')
         \<and> sd_base_stop stop = cfg_stop_loss_pct (apply_dynamic_adjustments base_rules adjustment)
         \<and> sd_tr_stop stop = Finite tr
         \<and> sd_stop_pct stop = min (max (min (sd_base_stop stop) tr) (- 25.0)) (- 2.0)
         \<and> sd_stop_level stop = entry * (1 + sd_stop_pct stop / 100)"
proof -
  have nz: "(entry = 0) = False"
    using assms(2) by simp
  show ?thesis
    unfolding calculate_adaptive_stop_def assms(1)
    apply (simp only: prod.case sum.case Let_def fst_conv nz simp_thms if_False float_value.case)
    apply (intro exI conjI, rule refl)
       apply (simp_all only: stop_data.select_convs)
    done
qed

lemma adaptive_stop_clamps:
  assumes "entry \<noteq> 0" and "momentum_defined market_state previous_state"
  shows "\<exists>tr stop. fst (calculate_adaptive_stop ticker entry current_true_range base_rules
                           market_state previous_state st) = Inr stop
               \<and> sd_tr_stop stop = Finite tr
               \<and> sd_stop_pct stop = min (max (min (sd_base_stop stop) tr) (- 25.0)) (- 2.0)
               \<and> - 25 \<le> sd_stop_pct stop \<and> sd_stop_pct stop \<le> - 2
               \<and> sd_stop_level stop = entry * (1 + sd_stop_pct stop / 100)"
proof -
  from detect_regime_transition_returns [OF assms(2)]
  obtain detected new_regime adjustment history' where
    "detect_regime_transition market_state previous_state (fst st) =
       (Inr (detected, new_regime, adjustment), history')"
    by blast
  from calculate_adaptive_stop_result [OF this assms(1)]
  obtain tr stop st' where res:
    "calculate_adaptive_stop ticker entry current_true_range base_rules
       market_state previous_state st = (Inr stop, st')"
    "sd_tr_stop stop = Finite tr"
    "sd_stop_pct stop = min (max (min (sd_base_stop stop) tr) (- 25.0)) (- 2.0)"
    "sd_stop_level stop = entry * (1 + sd_stop_pct stop / 100)"
    by blast
  from res(3) clamp_bounds [of "min (sd_base_stop stop) tr"]
  have "- 25 \<le> sd_stop_pct stop \<and> sd_stop_pct stop \<le> - 2"
    by simp
  with res show ?thesis
    by auto
qed

text \<open>
  C3 fails on \<open>calculate_dynamic_stop\<close>, the computation that applies the breadth
  multiplier: it has no clamp. For an entry at 50, a true range of 10, the bull-normal
  rules and a breadth reading of 70 the true-range stop of -36 is chosen and widened to
  -43.2, below the bound of -25 that \<open>calculate_adaptive_stop\<close> enforces.
\<close>

theorem dynamic_stop_unclamped_evaluation:
  "calculate_dynamic_stop 50 bull_normal_rules 10 (Some 70) =
     Inr \<lparr>ds_price = 28.4, ds_pct = - 43.2, ds_method = ''tr_based''\<rparr>"
  by (simp add: calculate_dynamic_stop_def bull_normal_rules_def)

section \<open>Profit ladder\<close>

text \<open>
  \<open>calculate_dynamic_profits\<close> closes, at each of three levels, the difference between
  the cumulative scaling of the level and that of the level before, so the three
  amounts add up to the last cumulative scaling.
\<close>

lemma dynamic_profits_position_to_close:
  assumes "entry \<noteq> 0"
      and "cfg_profit_levels config = [l1, l2, l3]"
      and "cfg_tr_profit_multipliers config = [m1, m2, m3]"
      and "cfg_position_scaling config = [s1, s2, s3]"
  shows "\<exists>targets. calculate_dynamic_profits entry config true_range = Inr targets
           \<and> map pt_position_to_close targets = [s1, s2 - s1, s3 - s2]
           \<and> sum_list (map pt_position_to_close targets) = s3"
  using assms by (simp add: calculate_dynamic_profits_def Let_def)

text \<open>
  C4 fails on \<open>calculate_profit_levels\<close>, which subtracts the amount closed at the
  level before instead of the cumulative scaling of the level before. For the entry
  at 45.66 with a VIX of 15.43 and a true range of 1.35 (the scaling is 25, 50, 100)
  the three amounts are 25, 25 and 75, which add up to 125.
\<close>

theorem profit_levels_sum_evaluation:
  "(case calculate_profit_levels 45.66 15.43 1.35 None of
      Inr (regime_name, profit_targets, rls) \<Rightarrow>
        map pl_position_to_close profit_targets = [25, 25, 75]
        \<and> sum_list (map pl_position_to_close profit_targets) = 125
    | Inl e \<Rightarrow> False)"
  by (simp add: calculate_profit_levels_def profit_taking_classify_regime_def regime_rules_def
        enumerate_eq_zip Let_def)

section \<open>Updating a position\<close>

text \<open>A position with nothing left is closed without error: it is logged, its return is recorded and it leaves the active set.\<close>

lemma close_and_return_eq:
  assumes "remaining_position p \<le> 0"
  shows "close_and_return t why x p a s =
     (Inr (CLOSED \<lparr>cr_symbol = t, cr_actions = a, cr_final_pnl = realized_pnl p,
                   cr_days_held = days_held p, cr_position = p\<rparr>),
      s\<lparr>trade_history := trade_history s @
            [POSITION_CLOSED
               \<lparr>cl_symbol = t, cl_entry_price = entry_price p, cl_exit_price = x,
                cl_total_return_pct = realized_pnl p * 100, cl_days_held = days_held p,
                cl_reason = why, cl_regime_at_entry = regime_at_entry p,
                cl_profit_levels_hit = length (profit_levels_hit p),
                cl_stop_triggered = stop_triggered p,
                cl_max_profit_seen = max_profit_seen p * 100,
                cl_max_loss_seen = max_loss_seen p * 100\<rparr>],
        performance_history := performance_history s @ [realized_pnl p],
        active_positions := (active_positions s)(t := None)\<rparr>)"
  using assms
  by (simp add: close_and_return_def close_position_def store_position_def Let_def)

text \<open>The profit-taking loop leaves stop flag and entry price alone, extends the levels hit, and changes nothing when it extends them by none; when it reports a close, nothing is left of the position.\<close>

lemma profit_taking_loop_keeps:
  assumes "profit_taking_loop h xs p a = (p', a', c)"
  shows "stop_triggered p' = stop_triggered p \<and> entry_price p' = entry_price p
       \<and> (c \<noteq> None \<longrightarrow> remaining_position p' \<le> 0)
       \<and> (\<exists>ks. profit_levels_hit p' = profit_levels_hit p @ ks \<and> (ks = [] \<longrightarrow> p' = p \<and> c = None))"
  using assms
proof (induction xs arbitrary: p a)
  case Nil
  then show ?case by simp
next
  case (Cons x rest)
  obtain i target scale where x: "x = (i, target, scale)"
    by (cases x) auto
  show ?case
  proof (cases "h \<ge> target \<and> i \<notin> set (profit_levels_hit p) \<and> remaining_position p > 0")
    case False
    with Cons x show ?thesis by simp
  next
    case True
    define taken where "taken = p\<lparr>realized_pnl := realized_pnl p +
         ((target - entry_price p) / entry_price p) *
           ((scale - (if i > 0 then profit_scales p ! (i - 1) else 0)) / 100),
       profit_levels_hit := profit_levels_hit p @ [i],
       remaining_position := remaining_position p -
           (scale - (if i > 0 then profit_scales p ! (i - 1) else 0))\<rparr>"
    have t: "stop_triggered taken = stop_triggered p" "entry_price taken = entry_price p"
            "profit_levels_hit taken = profit_levels_hit p @ [i]"
      by (simp_all add: taken_def)
    show ?thesis
    proof (cases "remaining_position taken \<le> 0")
      case closed_now: True
      with True Cons.prems x have "p' = taken" "c = Some target"
        by (simp_all add: taken_def Let_def)
      with t closed_now show ?thesis by simp
    next
      case still_open: False
      from True still_open Cons.prems x obtain a2 where
        rec: "profit_taking_loop h rest taken a2 = (p', a', c)"
        by (simp add: taken_def Let_def)
      from Cons.IH [OF rec] t show ?thesis by auto
    qed
  qed
qed

text \<open>The bookkeeping touches only the days held and the two excursions.\<close>

lemma track_performance_fields:
  "stop_triggered (track_performance p pd) = stop_triggered p"
  "entry_price (track_performance p pd) = entry_price p"
  "stop_level (track_performance p pd) = stop_level p"
  "remaining_position (track_performance p pd) = remaining_position p"
  "realized_pnl (track_performance p pd) = realized_pnl p"
  "profit_levels_hit (track_performance p pd) = profit_levels_hit p"
  "days_held (track_performance p pd) = days_held p + 1"
  by (simp_all add: track_performance_def)

text \<open>The body of \<open>update_position\<close> for an active position with a non-zero entry price.\<close>

lemma update_position_unfold:
  assumes "active_positions s t = Some p" and "entry_price p \<noteq> 0"
  shows "update_position t pd md s =
     (if low_of pd \<le> stop_level p \<and> \<not> stop_triggered p \<and> remaining_position p > 0
      then execute_stop_loss t (track_performance p pd) s
      else
        (case profit_taking_loop (high_of pd)
                (enumerate 0 (zip (profit_levels p) (profit_scales p)))
                (track_performance p pd) [] of
           (taken, actions_taken, Some profit_target) \<Rightarrow>
             close_and_return t ''profit_taking_complete'' profit_target taken actions_taken s
         | (taken, actions_taken, None) \<Rightarrow>
             (case check_regime_changes md taken actions_taken s of
                Inl e \<Rightarrow> (Inl e, store_position t taken s)
              | Inr (adjusted, actions_now, self1) \<Rightarrow>
                  check_time_exit t (close_of pd) ((close_of pd - entry_price p) / entry_price p)
                    adjusted actions_now self1)))"
  using assms
  by (simp add: update_position_def Let_def track_performance_def)

lemma execute_stop_loss_eq:
  "execute_stop_loss t p s =
     close_and_return t ''stop_loss'' (stop_level p)
       (p\<lparr>realized_pnl := realized_pnl p +
             ((stop_level p - entry_price p) / entry_price p) * (remaining_position p / 100),
          stop_triggered := True, remaining_position := 0\<rparr>)
       [STOP_LOSS_EXECUTED (stop_level p) 0
          (((stop_level p - entry_price p) / entry_price p) * (remaining_position p / 100))] s"
  by (simp add: execute_stop_loss_def Let_def)

text \<open>The regime block changes at most the stop level of the position, and neither the active set nor the two histories.\<close>

lemma check_regime_changes_keeps:
  assumes "check_regime_changes md p a s = Inr (p', a', s')"
  shows "active_positions s' = active_positions s \<and> trade_history s' = trade_history s
       \<and> performance_history s' = performance_history s
       \<and> p' = p\<lparr>stop_level := stop_level p'\<rparr>"
  using assms
  by (auto simp: check_regime_changes_def Let_def split: if_splits prod.splits sum.splits)

text \<open>The time exit either closes the position or returns the active dictionary and leaves the position stored.\<close>

lemma check_time_exit_cases:
  "(\<exists>r. check_time_exit t cp pnl p a s =
          (Inr (CLOSED r), s\<lparr>trade_history := trade_history s @
                 [POSITION_CLOSED
                    \<lparr>cl_symbol = t, cl_entry_price = entry_price p, cl_exit_price = cp,
                     cl_total_return_pct =
                       (realized_pnl p + pnl * (remaining_position p / 100)) * 100,
                     cl_days_held = days_held p, cl_reason = ''time_exit'',
                     cl_regime_at_entry = regime_at_entry p,
                     cl_profit_levels_hit = length (profit_levels_hit p),
                     cl_stop_triggered = stop_triggered p,
                     cl_max_profit_seen = max_profit_seen p * 100,
                     cl_max_loss_seen = max_loss_seen p * 100\<rparr>],
               performance_history := performance_history s @
                 [realized_pnl p + pnl * (remaining_position p / 100)],
               active_positions := (active_positions s)(t := None)\<rparr>))
   \<or> (\<exists>r. check_time_exit t cp pnl p a s = (Inr (ACTIVE r), store_position t p s)
           \<and> ar_position r = p)"
  by (simp add: check_time_exit_def Let_def close_and_return_eq)

text \<open>Every update of an active position either returns the closed dictionary and removes the position, or does not and leaves a position with the same stop flag and entry price stored.\<close>

lemma update_position_outcome:
  assumes act: "active_positions s t = Some p" and nz: "entry_price p \<noteq> 0"
  shows "((\<exists>r. fst (update_position t pd md s) = Inr (CLOSED r))
            \<and> active_positions (snd (update_position t pd md s)) = (active_positions s)(t := None))
       \<or> (\<exists>q. (\<forall>r. fst (update_position t pd md s) \<noteq> Inr (CLOSED r))
               \<and> active_positions (snd (update_position t pd md s)) = (active_positions s)(t \<mapsto> q)
               \<and> stop_triggered q = stop_triggered p \<and> entry_price q = entry_price p
               \<and> (\<exists>ks. profit_levels_hit q = profit_levels_hit p @ ks
                      \<and> (ks = [] \<longrightarrow> realized_pnl q = realized_pnl p
                                     \<and> remaining_position q = remaining_position p)))"
proof (cases "low_of pd \<le> stop_level p \<and> \<not> stop_triggered p \<and> remaining_position p > 0")
  case True
  then show ?thesis
    by (simp add: update_position_unfold [OF act nz] execute_stop_loss_eq close_and_return_eq)
next
  case False
  obtain taken acts c where loop:
    "profit_taking_loop (high_of pd) (enumerate 0 (zip (profit_levels p) (profit_scales p)))
       (track_performance p pd) [] = (taken, acts, c)"
    by (metis prod_cases3)
  from profit_taking_loop_keeps [OF loop]
  obtain ks where taken:
    "stop_triggered taken = stop_triggered p" "entry_price taken = entry_price p"
    "c \<noteq> None \<longrightarrow> remaining_position taken \<le> 0"
    "profit_levels_hit taken = profit_levels_hit p @ ks"
    "ks = [] \<longrightarrow> taken = track_performance p pd"
    by (auto simp: track_performance_fields)
  have unf: "update_position t pd md s =
      (case (taken, acts, c) of
         (taken, actions_taken, Some profit_target) \<Rightarrow>
           close_and_return t ''profit_taking_complete'' profit_target taken actions_taken s
       | (taken, actions_taken, None) \<Rightarrow>
           (case check_regime_changes md taken actions_taken s of
              Inl e \<Rightarrow> (Inl e, store_position t taken s)
            | Inr (adjusted, actions_now, self1) \<Rightarrow>
                check_time_exit t (close_of pd) ((close_of pd - entry_price p) / entry_price p)
                  adjusted actions_now self1))"
    unfolding update_position_unfold [OF act nz] loop [symmetric]
    by (rule if_not_P [OF False])
  have same: "ks = [] \<longrightarrow> realized_pnl taken = realized_pnl p
                         \<and> remaining_position taken = remaining_position p"
    using taken(5) by (auto simp: track_performance_fields)
  show ?thesis
  proof (cases c)
    case (Some target)
    with taken(3) have "remaining_position taken \<le> 0" by simp
    with Some show ?thesis
      by (simp add: unf close_and_return_eq)
  next
    case None
    show ?thesis
    proof (cases "check_regime_changes md taken acts s")
      case (Inl e)
      with None have "update_position t pd md s = (Inl e, store_position t taken s)"
        by (simp add: unf)
      with taken same show ?thesis
        by (auto simp: store_position_def)
    next
      case (Inr triple)
      obtain adjusted acts' s1 where triple: "triple = (adjusted, acts', s1)"
        by (cases triple) auto
      from check_regime_changes_keeps [OF Inr [unfolded triple]]
      have s1: "active_positions s1 = active_positions s"
        and adj: "adjusted = taken\<lparr>stop_level := stop_level adjusted\<rparr>"
        by simp_all
      have adjf: "stop_triggered adjusted = stop_triggered taken"
                 "entry_price adjusted = entry_price taken"
                 "profit_levels_hit adjusted = profit_levels_hit taken"
                 "realized_pnl adjusted = realized_pnl taken"
                 "remaining_position adjusted = remaining_position taken"
        by (subst adj, simp)+
      from None Inr triple
      have upd: "update_position t pd md s =
                   check_time_exit t (close_of pd) ((close_of pd - entry_price p) / entry_price p)
                     adjusted acts' s1"
        by (simp add: unf)
      from check_time_exit_cases
             [of t "close_of pd" "(close_of pd - entry_price p) / entry_price p" adjusted acts' s1]
      show ?thesis
      proof
        assume "\<exists>r. check_time_exit t (close_of pd) ((close_of pd - entry_price p) / entry_price p)
                      adjusted acts' s1 =
                  (Inr (CLOSED r), s1\<lparr>trade_history := trade_history s1 @
                 [POSITION_CLOSED
                    \<lparr>cl_symbol = t, cl_entry_price = entry_price adjusted, cl_exit_price = close_of pd,
                     cl_total_return_pct =
                       (realized_pnl adjusted + (close_of pd - entry_price p) / entry_price p * (remaining_position adjusted / 100)) * 100,
                     cl_days_held = days_held adjusted, cl_reason = ''time_exit'',
                     cl_regime_at_entry = regime_at_entry adjusted,
                     cl_profit_levels_hit = length (profit_levels_hit adjusted),
                     cl_stop_triggered = stop_triggered adjusted,
                     cl_max_profit_seen = max_profit_seen adjusted * 100,
                     cl_max_loss_seen = max_loss_seen adjusted * 100\<rparr>],
               performance_history := performance_history s1 @
                 [realized_pnl adjusted + (close_of pd - entry_price p) / entry_price p * (remaining_position adjusted / 100)],
               active_positions := (active_positions s1)(t := None)\<rparr>)"
        with upd s1 show ?thesis by auto
      next
        assume "\<exists>r. check_time_exit t (close_of pd) ((close_of pd - entry_price p) / entry_price p)
                      adjusted acts' s1 = (Inr (ACTIVE r), store_position t adjusted s1)
                  \<and> ar_position r = adjusted"
        with upd s1 taken same adjf show ?thesis
          by (auto simp: store_position_def)
      qed
    qed
  qed
qed

lemma update_position_zero_entry:
  assumes "active_positions s t = Some p" and "entry_price p = 0"
  shows "fst (update_position t pd md s) = Inl ZeroDivisionError"
  using assms by (simp add: update_position_def Let_def)

text \<open>Updates keep the invariant of the active positions.\<close>

lemma update_position_manager_ok:
  assumes "manager_ok s"
  shows "manager_ok (snd (update_position t pd md s))"
proof (cases "active_positions s t")
  case None
  with assms show ?thesis by (simp add: update_position_def)
next
  case (Some p)
  with assms have ok: "position_ok p" by (simp add: manager_ok_def)
  then have nz: "entry_price p \<noteq> 0" by (simp add: position_ok_def)
  from update_position_outcome [OF Some nz, of pd md]
  show ?thesis
  proof
    assume "(\<exists>r. fst (update_position t pd md s) = Inr (CLOSED r))
            \<and> active_positions (snd (update_position t pd md s)) = (active_positions s)(t := None)"
    with assms show ?thesis
      by (auto simp: manager_ok_def split: if_splits)
  next
    assume "\<exists>q. (\<forall>r. fst (update_position t pd md s) \<noteq> Inr (CLOSED r))
               \<and> active_positions (snd (update_position t pd md s)) = (active_positions s)(t \<mapsto> q)
               \<and> stop_triggered q = stop_triggered p \<and> entry_price q = entry_price p
               \<and> (\<exists>ks. profit_levels_hit q = profit_levels_hit p @ ks
                      \<and> (ks = [] \<longrightarrow> realized_pnl q = realized_pnl p
                                     \<and> remaining_position q = remaining_position p))"
    then obtain q ks where q:
      "active_positions (snd (update_position t pd md s)) = (active_positions s)(t \<mapsto> q)"
      "stop_triggered q = stop_triggered p" "entry_price q = entry_price p"
      "profit_levels_hit q = profit_levels_hit p @ ks"
      "ks = [] \<longrightarrow> realized_pnl q = realized_pnl p \<and> remaining_position q = remaining_position p"
      by blast
    from ok q(2-5) have "position_ok q"
      by (auto simp: position_ok_def)
    with assms q(1) show ?thesis
      by (auto simp: manager_ok_def split: if_splits)
  qed
qed

section \<open>Opening a position\<close>

text \<open>The detection fails only by the division of the momentum block, and then logs nothing.\<close>

lemma detect_regime_transition_fails:
  assumes "detect_regime_transition current previous_state history = (Inl e, history')"
  shows "e = ZeroDivisionError \<and> history' = history \<and> \<not> momentum_defined current previous_state"
proof (cases previous_state)
  case None
  with assms show ?thesis by (simp add: detect_regime_transition_def)
next
  case (Some previous)
  show ?thesis
  proof (cases "calculate_transition_adjustments current previous")
    case (Inl e')
    then have "e' = ZeroDivisionError \<and> \<not> momentum_defined current (Some previous)"
      by (auto simp: calculate_transition_adjustments_def momentum_defined_def Let_def
            split: option.splits if_splits)
    with assms Some Inl show ?thesis
      by (simp add: detect_regime_transition_def Let_def)
  next
    case (Inr base)
    with assms Some show ?thesis
      by (simp add: detect_regime_transition_def Let_def)
  qed
qed

lemma detect_regime_transition_history:
  "fst (detect_regime_transition current previous_state history) =
   fst (detect_regime_transition current previous_state history2)"
  by (simp add: detect_regime_transition_def Let_def split: option.splits sum.splits)

text \<open>The adaptive stop fails only by a division.\<close>

lemma pair_if_Inl:
  assumes "(if c then (Inl a, x) else (Inr y, z)) = (Inl e, w)"
  shows "e = a"
  using assms by (simp split: if_splits)

lemma calculate_adaptive_stop_error:
  assumes "calculate_adaptive_stop ticker entry current_true_range base_rules
             market_state previous_state st = (Inl e, st')"
  shows "e = ZeroDivisionError"
proof (cases "detect_regime_transition market_state previous_state (fst st)")
  case (Pair res history')
  show ?thesis
  proof (cases res)
    case (Inl e')
    with Pair detect_regime_transition_fails [of market_state previous_state "fst st" e' history']
    have "e' = ZeroDivisionError" by blast
    with assms Pair Inl show ?thesis
      by (simp add: calculate_adaptive_stop_def)
  next
    case (Inr triple)
    obtain detected new_regime adjustment where triple:
      "triple = (detected, new_regime, adjustment)"
      by (cases triple) auto
    have detect: "detect_regime_transition market_state previous_state (fst st) =
                    (Inr (detected, new_regime, adjustment), history')"
      using Pair Inr triple by simp
    from assms show ?thesis
      unfolding calculate_adaptive_stop_def detect
      apply (simp only: prod.case sum.case Let_def)
      apply (erule pair_if_Inl)
      done
  qed
qed

text \<open>Every name \<open>classify_regime\<close> returns is a key of \<open>regime_configurations\<close>, and its rules have three levels.\<close>

lemma regime_rules_found:
  "\<exists>base. map_of regime_configurations (classify_regime vix) = Some base
        \<and> length (cfg_profit_levels base) = 3
        \<and> length (cfg_tr_profit_multipliers base) = 3
        \<and> length (cfg_position_scaling base) = 3"
  by (simp add: classify_regime_def regime_configurations_def crisis_opportunity_rules_def
        high_vol_stress_rules_def bull_normal_rules_def low_vol_complacency_rules_def)

lemma dynamic_profits_returns:
  assumes "entry \<noteq> 0"
      and "length (cfg_profit_levels config) = 3"
      and "length (cfg_tr_profit_multipliers config) = 3"
      and "length (cfg_position_scaling config) = 3"
  shows "\<exists>targets. calculate_dynamic_profits entry config true_range = Inr targets"
proof -
  from assms(2-4) obtain l1 l2 l3 m1 m2 m3 s1 s2 s3 where
    "cfg_profit_levels config = [l1, l2, l3]"
    "cfg_tr_profit_multipliers config = [m1, m2, m3]"
    "cfg_position_scaling config = [s1, s2, s3]"
    by (auto simp: length_Suc_conv numeral_3_eq_3)
  with assms(1) show ?thesis
    by (simp add: calculate_dynamic_profits_def Let_def)
qed

lemma regime_rules_lengths:
  assumes "map_of regime_configurations name = Some base"
  shows "length (cfg_profit_levels base) = 3 \<and> length (cfg_tr_profit_multipliers base) = 3
       \<and> length (cfg_position_scaling base) = 3"
  using assms
  by (auto simp: regime_configurations_def crisis_opportunity_rules_def
        high_vol_stress_rules_def bull_normal_rules_def low_vol_complacency_rules_def
        split: if_splits)

text \<open>
  With an entry price of zero the profit ladder of a configuration with three levels
  fails at its first level, by the division of \<open>final_pct\<close>.
\<close>

lemma dynamic_profits_zero_entry:
  assumes "length (cfg_profit_levels config) = 3"
      and "length (cfg_tr_profit_multipliers config) = 3"
  shows "calculate_dynamic_profits 0 config true_range = Inl ZeroDivisionError"
proof -
  from assms obtain l1 l2 l3 m1 m2 m3 where
    "cfg_profit_levels config = [l1, l2, l3]"
    "cfg_tr_profit_multipliers config = [m1, m2, m3]"
    by (auto simp: length_Suc_conv numeral_3_eq_3)
  then show ?thesis
    by (simp add: calculate_dynamic_profits_def Let_def)
qed

lemma open_profits_zero_entry:
  assumes "map_of regime_configurations name = Some base"
  shows "calculate_dynamic_profits 0 (apply_dynamic_adjustments base adjustment) true_range =
           Inl ZeroDivisionError"
  using regime_rules_lengths [OF assms]
  by (intro dynamic_profits_zero_entry) (simp_all add: apply_dynamic_adjustments_def)

lemma open_profits_nonzero:
  assumes "calculate_dynamic_profits entry (apply_dynamic_adjustments base adjustment) true_range =
             Inr targets"
      and "map_of regime_configurations name = Some base"
  shows "entry \<noteq> 0"
  using assms open_profits_zero_entry [OF assms(2), of adjustment true_range]
  by auto

lemma open_position_duplicate:
  assumes "active_positions s t = Some p"
  shows "open_position t entry md ps s = (Inl DuplicatePosition, s)"
  using assms by (simp add: open_position_def dom_def)

text \<open>A failed \<open>open_position\<close> leaves the active set and the two histories as they were.\<close>

lemma open_position_error_state:
  assumes "open_position t entry md ps s = (Inl e, s')"
  shows "active_positions s' = active_positions s \<and> trade_history s' = trade_history s
       \<and> performance_history s' = performance_history s"
  using assms
  by (auto simp: open_position_def Let_def
        split: if_splits option.splits prod.splits sum.splits
        dest: open_profits_nonzero)

text \<open>A successful \<open>open_position\<close> had a non-zero entry price and a new symbol, and stores a fresh position.\<close>

lemma open_position_success_state:
  assumes "open_position t entry md ps s = (Inr r, s')"
  shows "entry \<noteq> 0 \<and> active_positions s t = None
       \<and> or_regime r = classify_regime (market_vix md)
       \<and> (\<exists>pos. active_positions s' = (active_positions s)(t \<mapsto> pos)
              \<and> entry_price pos = entry \<and> \<not> stop_triggered pos \<and> profit_levels_hit pos = []
              \<and> realized_pnl pos = 0 \<and> remaining_position pos = 100
              \<and> vix_at_entry pos = market_vix md
              \<and> regime_at_entry pos = classify_regime (market_vix md))"
  using assms
  by (auto simp: open_position_def Let_def market_vix_def
        split: if_splits option.splits prod.splits sum.splits)

text \<open>
  \<open>open_position\<close> for a new symbol, a non-zero entry price and a defined momentum
  division: every stage returns, and the call returns the dictionary and the state
  built from the results of the stages.
\<close>

lemma open_position_success:
  assumes "active_positions s t = None" and "entry \<noteq> 0"
      and "momentum_defined (entry_state md s) (current_market_state s)"
  shows "\<exists>base detected new_regime adjustment history stop st targets.
           map_of regime_configurations (classify_regime (market_vix md)) = Some base
         \<and> detect_regime_transition (entry_state md s) (current_market_state s)
               (adjustment_history s) = (Inr (detected, new_regime, adjustment), history)
         \<and> calculate_adaptive_stop t entry (market_true_range md entry)
               (apply_dynamic_adjustments base adjustment) (entry_state md s)
               (current_market_state s) (history, rolling_true_ranges s) = (Inr stop, st)
         \<and> calculate_dynamic_profits entry (apply_dynamic_adjustments base adjustment)
               (market_true_range md entry) = Inr targets
         \<and> open_position t entry md ps s =
             (Inr \<lparr>or_position_id = t, or_entry_price = entry,
                   or_regime = classify_regime (market_vix md),
                   or_stop_level = sd_stop_level stop,
                   or_stop_distance_pct = ((sd_stop_level stop - entry) / entry) * 100,
                   or_profit_targets = map pt_price targets,
                   or_expected_hold_days =
                     cfg_max_hold_override (apply_dynamic_adjustments base adjustment),
                   or_regime_transition_detected = detected,
                   or_market_adjustments = reason adjustment\<rparr>,
              s\<lparr>previous_market_state := current_market_state s,
                 current_market_state := Some (entry_state md s),
                 adjustment_history := fst st,
                 rolling_true_ranges := snd st,
                 active_positions :=
                   (active_positions s)
                     (t \<mapsto>
                        \<lparr>symbol = t, entry_price = entry,
                         position_size = (case ps of None \<Rightarrow> max_position_size s | Some p \<Rightarrow> p),
                         regime_at_entry = classify_regime (market_vix md),
                         vix_at_entry = market_vix md, stop_level = sd_stop_level stop,
                         profit_levels = map pt_price targets,
                         profit_scales =
                           cfg_position_scaling (apply_dynamic_adjustments base adjustment),
                         stop_triggered = False, profit_levels_hit = [],
                         remaining_position = 100, realized_pnl = 0, max_profit_seen = 0,
                         max_loss_seen = 0, days_held = 0\<rparr>),
                 trade_history :=
                   trade_history s @
                     [POSITION_OPENED
                        \<lparr>ol_symbol = t, ol_entry_price = entry,
                         ol_regime = classify_regime (market_vix md), ol_vix = market_vix md,
                         ol_stop_level = sd_stop_level stop,
                         ol_profit_targets = map pt_price targets,
                         ol_adjustments_applied =
                           (if reason_nonempty (reason adjustment) then reason adjustment
                            else [Txt ''none''])\<rparr>]\<rparr>)"
proof -
  obtain base where base:
    "map_of regime_configurations (classify_regime (market_vix md)) = Some base"
    "length (cfg_profit_levels base) = 3" "length (cfg_tr_profit_multipliers base) = 3"
    "length (cfg_position_scaling base) = 3"
    using regime_rules_found by blast
  from detect_regime_transition_returns [OF assms(3)]
  obtain detected new_regime adjustment history where detect:
    "detect_regime_transition (entry_state md s) (current_market_state s) (adjustment_history s) =
       (Inr (detected, new_regime, adjustment), history)"
    by blast
  from detect_regime_transition_history
         [of "entry_state md s" "current_market_state s" history "adjustment_history s"] detect
  obtain history2 where detect2:
    "detect_regime_transition (entry_state md s) (current_market_state s)
       (fst (history, rolling_true_ranges s)) = (Inr (detected, new_regime, adjustment), history2)"
    by (cases "detect_regime_transition (entry_state md s) (current_market_state s) history") auto
  from calculate_adaptive_stop_result [OF detect2 assms(2)]
  obtain stop st where stop:
    "calculate_adaptive_stop t entry (market_true_range md entry)
       (apply_dynamic_adjustments base adjustment) (entry_state md s) (current_market_state s)
       (history, rolling_true_ranges s) = (Inr stop, st)"
    by blast
  from dynamic_profits_returns [OF assms(2), of "apply_dynamic_adjustments base adjustment"] base(2-4)
  obtain targets where targets:
    "calculate_dynamic_profits entry (apply_dynamic_adjustments base adjustment)
       (market_true_range md entry) = Inr targets"
    by (auto simp: apply_dynamic_adjustments_def)
  have "open_position t entry md ps s =
             (Inr \<lparr>or_position_id = t, or_entry_price = entry,
                   or_regime = classify_regime (market_vix md),
                   or_stop_level = sd_stop_level stop,
                   or_stop_distance_pct = ((sd_stop_level stop - entry) / entry) * 100,
                   or_profit_targets = map pt_price targets,
                   or_expected_hold_days =
                     cfg_max_hold_override (apply_dynamic_adjustments base adjustment),
                   or_regime_transition_detected = detected,
                   or_market_adjustments = reason adjustment\<rparr>,
              s\<lparr>previous_market_state := current_market_state s,
                 current_market_state := Some (entry_state md s),
                 adjustment_history := fst st,
                 rolling_true_ranges := snd st,
                 active_positions :=
                   (active_positions s)
                     (t \<mapsto>
                        \<lparr>symbol = t, entry_price = entry,
                         position_size = (case ps of None \<Rightarrow> max_position_size s | Some p \<Rightarrow> p),
                         regime_at_entry = classify_regime (market_vix md),
                         vix_at_entry = market_vix md, stop_level = sd_stop_level stop,
                         profit_levels = map pt_price targets,
                         profit_scales =
                           cfg_position_scaling (apply_dynamic_adjustments base adjustment),
                         stop_triggered = False, profit_levels_hit = [],
                         remaining_position = 100, realized_pnl = 0, max_profit_seen = 0,
                         max_loss_seen = 0, days_held = 0\<rparr>),
                 trade_history :=
                   trade_history s @
                     [POSITION_OPENED
                        \<lparr>ol_symbol = t, ol_entry_price = entry,
                         ol_regime = classify_regime (market_vix md), ol_vix = market_vix md,
                         ol_stop_level = sd_stop_level stop,
                         ol_profit_targets = map pt_price targets,
                         ol_adjustments_applied =
                           (if reason_nonempty (reason adjustment) then reason adjustment
                            else [Txt ''none''])\<rparr>]\<rparr>)"
    using assms(1,2) base(1) detect stop targets
    unfolding market_vix_def market_true_range_def entry_state_def
    by (simp add: open_position_def Let_def dom_def)
  with base(1) detect stop targets show ?thesis
    by blast
qed

lemma open_position_succeeds:
  assumes "active_positions s t = None" and "entry \<noteq> 0"
      and "momentum_defined (entry_state md s) (current_market_state s)"
  shows "\<exists>r s'. open_position t entry md ps s = (Inr r, s')"
  using open_position_success [OF assms, of ps] by blast

text \<open>
  Whatever the entry price, a call for a new symbol stores the snapshot built from
  \<open>market_data\<close> as the current market state and the former one as the previous.
\<close>

lemma open_position_market_state:
  assumes "active_positions s t = None"
  shows "current_market_state (snd (open_position t entry md ps s)) = Some (entry_state md s)
       \<and> previous_market_state (snd (open_position t entry md ps s)) = current_market_state s"
  using assms
  by (auto simp: open_position_def Let_def entry_state_def market_vix_def dom_def
        split: option.splits prod.splits sum.splits)

text \<open>
  With an entry price of zero the call fails by a division: in the transition
  detection, in the stop computation (when the rolling mean of the true ranges is not
  positive), or else at the first level of the profit ladder.
\<close>

lemma open_position_zero_entry:
  assumes "active_positions s t = None"
  shows "fst (open_position t 0 md ps s) = Inl ZeroDivisionError"
proof -
  obtain base where base:
    "map_of regime_configurations (classify_regime (market_vix md)) = Some base"
    using regime_rules_found by blast
  obtain res history where detect:
    "detect_regime_transition (entry_state md s) (current_market_state s) (adjustment_history s) =
       (res, history)"
    by (cases "detect_regime_transition (entry_state md s) (current_market_state s)
                 (adjustment_history s)") auto
  show ?thesis
  proof (cases res)
    case (Inl e)
    with detect detect_regime_transition_fails have "e = ZeroDivisionError"
      by blast
    with assms base detect Inl show ?thesis
      unfolding market_vix_def market_true_range_def entry_state_def
      by (simp add: open_position_def Let_def dom_def)
  next
    case (Inr triple)
    obtain detected new_regime adjustment where triple:
      "triple = (detected, new_regime, adjustment)"
      by (cases triple) auto
    obtain res2 st where stop:
      "calculate_adaptive_stop t 0 (market_true_range md 0)
         (apply_dynamic_adjustments base adjustment) (entry_state md s) (current_market_state s)
         (history, rolling_true_ranges s) = (res2, st)"
      by (cases "calculate_adaptive_stop t 0 (market_true_range md 0)
                   (apply_dynamic_adjustments base adjustment) (entry_state md s)
                   (current_market_state s) (history, rolling_true_ranges s)") auto
    show ?thesis
    proof (cases res2)
      case raised: (Inl e2)
      with stop calculate_adaptive_stop_error have "e2 = ZeroDivisionError"
        by blast
      with assms base detect Inr triple stop raised show ?thesis
        unfolding market_vix_def market_true_range_def entry_state_def
        by (simp add: open_position_def Let_def dom_def)
    next
      case returned: (Inr stop_dict)
      from open_profits_zero_entry [OF base, of adjustment "market_true_range md 0"]
      have "calculate_dynamic_profits 0 (apply_dynamic_adjustments base adjustment)
              (market_true_range md 0) = Inl ZeroDivisionError" .
      with assms base detect Inr triple stop returned show ?thesis
        unfolding market_vix_def market_true_range_def entry_state_def
        by (simp add: open_position_def Let_def dom_def)
    qed
  qed
qed

section \<open>Reachable states\<close>

text \<open>
  Opening keeps the invariant of the active positions, so every reachable state has it.
\<close>

lemma open_position_manager_ok:
  assumes "manager_ok s"
  shows "manager_ok (snd (open_position t entry md ps s))"
proof (cases "open_position t entry md ps s")
  case (Pair res s')
  show ?thesis
  proof (cases res)
    case (Inl e)
    with Pair open_position_error_state have "active_positions s' = active_positions s"
      by blast
    with assms Pair show ?thesis by (simp add: manager_ok_def)
  next
    case (Inr r)
    with Pair open_position_success_state [of t entry md ps s r s']
    obtain pos where "entry \<noteq> 0" "active_positions s' = (active_positions s)(t \<mapsto> pos)"
      "entry_price pos = entry" "\<not> stop_triggered pos" "realized_pnl pos = 0"
      "remaining_position pos = 100"
      by auto
    with assms Pair show ?thesis
      by (auto simp: manager_ok_def position_ok_def split: if_splits)
  qed
qed

lemma reachable_manager_ok: "reachable s \<Longrightarrow> manager_ok s"
proof (induction rule: reachable.induct)
  case reachable_init
  show ?case by (simp add: manager_ok_def init_manager_def)
next
  case (reachable_open self ticker entry market_data position_size_arg)
  then show ?case by (simp add: open_position_manager_ok)
next
  case (reachable_update self ticker current_price_data market_data)
  then show ?case by (simp add: update_position_manager_ok)
qed

section \<open>A worked position\<close>

text \<open>
  The position opened for EDN at 50 on a fresh manager, with no market data given:
  the VIX defaults to 20 (bull normal), the true range to 1, the stop is at 46 and the
  profit targets are 56, 62.5 and 70.
\<close>


lemma map_of_bull: "map_of regime_configurations ''bull_normal'' = Some bull_normal_rules"
  by (simp add: regime_configurations_def)

lemma classify_20: "classify_regime 20 = ''bull_normal''"
  by (simp add: classify_regime_def regime_configurations_def crisis_opportunity_rules_def
        high_vol_stress_rules_def bull_normal_rules_def)

lemma detect_EDN:
  "detect_regime_transition
     \<lparr>vix_level = 20, t2108_level = None, momentum_ratio = None, day = Suc 0, regime = BULL_NORMAL\<rparr>
     None [] = (Inr (True, BULL_NORMAL, RuleAdjustment_default), [])"
  by (simp add: detect_regime_transition_def classify_regime_comprehensive_def)

lemma adjust_default: "apply_dynamic_adjustments bull_normal_rules RuleAdjustment_default = bull_normal_rules"
  by (simp add: apply_dynamic_adjustments_def bull_normal_rules_def RuleAdjustment_default_def)

lemma default_reason: "reason RuleAdjustment_default = []" "reason_nonempty [] = False"
  by (simp_all add: RuleAdjustment_default_def reason_nonempty_def)

lemma bull_normal_fields:
  "cfg_position_scaling bull_normal_rules = [25, 50, 100]"
  "cfg_max_hold_override bull_normal_rules = 3"
  "cfg_stop_loss_pct bull_normal_rules = - 8"
  "cfg_tr_stop_multiplier bull_normal_rules = 1.8"
  by (simp_all add: bull_normal_rules_def)

lemma stop_EDN:
  "calculate_adaptive_stop ''EDN'' 50 1 bull_normal_rules
     \<lparr>vix_level = 20, t2108_level = None, momentum_ratio = None, day = Suc 0, regime = BULL_NORMAL\<rparr>
     None ([], Map.empty) =
   (Inr \<lparr>sd_stop_level = 46, sd_stop_pct = - 8, sd_regime = ''bull_normal'', sd_base_stop = - 8,
          sd_tr_stop = Finite (- 3.6), sd_volatility_factor = 1, sd_adjustment_applied = [Txt ''none''],
          sd_transition_detected = True\<rparr>, ([], [''EDN'' \<mapsto> [1]]))"
  by (simp add: calculate_adaptive_stop_def detect_EDN adjust_default bull_normal_fields
        default_reason Let_def)

lemma profits_EDN:
  "calculate_dynamic_profits 50 bull_normal_rules 1 =
     Inr [\<lparr>pt_level = 1, pt_price = 56, pt_pct = 12, pt_position_to_close = 25, pt_method = ''pct_based''\<rparr>,
          \<lparr>pt_level = 2, pt_price = 62.5, pt_pct = 25, pt_position_to_close = 25, pt_method = ''pct_based''\<rparr>,
          \<lparr>pt_level = 3, pt_price = 70, pt_pct = 40, pt_position_to_close = 50, pt_method = ''pct_based''\<rparr>]"
  by (simp add: calculate_dynamic_profits_def bull_normal_rules_def Let_def)

lemma open_EDN:
  "open_position ''EDN'' 50 Map.empty None init_manager =
     (Inr \<lparr>or_position_id = ''EDN'', or_entry_price = 50, or_regime = ''bull_normal'',
           or_stop_level = 46, or_stop_distance_pct = - 8, or_profit_targets = [56, 62.5, 70],
           or_expected_hold_days = 3, or_regime_transition_detected = True,
           or_market_adjustments = []\<rparr>,
      init_manager
        \<lparr>previous_market_state := None,
         current_market_state :=
           Some \<lparr>vix_level = 20, t2108_level = None, momentum_ratio = None, day = 1,
                 regime = BULL_NORMAL\<rparr>,
         adjustment_history := [],
         rolling_true_ranges := [''EDN'' \<mapsto> [1]],
         active_positions :=
           [''EDN'' \<mapsto>
              \<lparr>symbol = ''EDN'', entry_price = 50, position_size = 100,
               regime_at_entry = ''bull_normal'', vix_at_entry = 20, stop_level = 46,
               profit_levels = [56, 62.5, 70], profit_scales = [25, 50, 100],
               stop_triggered = False, profit_levels_hit = [], remaining_position = 100,
               realized_pnl = 0, max_profit_seen = 0, max_loss_seen = 0, days_held = 0\<rparr>],
         trade_history :=
           [POSITION_OPENED
              \<lparr>ol_symbol = ''EDN'', ol_entry_price = 50, ol_regime = ''bull_normal'', ol_vix = 20,
               ol_stop_level = 46, ol_profit_targets = [56, 62.5, 70],
               ol_adjustments_applied = [Txt ''none'']\<rparr>]\<rparr>)"
  by (simp add: open_position_def init_manager_def classify_20 map_of_bull
        detect_EDN adjust_default stop_EDN profits_EDN default_reason bull_normal_fields Let_def)

lemma EDN_active:
  "active_positions (snd (open_position ''EDN'' 50 Map.empty None init_manager)) ''EDN'' =
     Some \<lparr>symbol = ''EDN'', entry_price = 50, position_size = 100,
            regime_at_entry = ''bull_normal'', vix_at_entry = 20, stop_level = 46,
            profit_levels = [56, 62.5, 70], profit_scales = [25, 50, 100],
            stop_triggered = False, profit_levels_hit = [], remaining_position = 100,
            realized_pnl = 0, max_profit_seen = 0, max_loss_seen = 0, days_held = 0\<rparr>"
  by (simp add: open_EDN)

lemma EDN_reachable: "reachable (snd (open_position ''EDN'' 50 Map.empty None init_manager))"
  by (rule reachable_open [OF reachable_init])

text \<open>
  A day with a low of 45, below the stop at 46, and a high of 65, above two profit targets.
\<close>

lemma update_EDN_stop:
  "fst (update_position ''EDN'' [''high'' \<mapsto> 65, ''low'' \<mapsto> 45, ''close'' \<mapsto> 60] Map.empty
          (snd (open_position ''EDN'' 50 Map.empty None init_manager))) =
     Inr (CLOSED
       \<lparr>cr_symbol = ''EDN'', cr_actions = [STOP_LOSS_EXECUTED 46 0 (- 0.08)],
        cr_final_pnl = - 0.08, cr_days_held = 1,
        cr_position =
          \<lparr>symbol = ''EDN'', entry_price = 50, position_size = 100,
           regime_at_entry = ''bull_normal'', vix_at_entry = 20, stop_level = 46,
           profit_levels = [56, 62.5, 70], profit_scales = [25, 50, 100],
           stop_triggered = True, profit_levels_hit = [], remaining_position = 0,
           realized_pnl = - 0.08, max_profit_seen = 0.3, max_loss_seen = - 0.1, days_held = 1\<rparr>\<rparr>)"
  by (simp add: update_position_unfold [OF EDN_active] low_of_def high_of_def
        execute_stop_loss_eq close_and_return_eq track_performance_def)

section \<open>The position lifecycle\<close>

text \<open>
  C6. For every symbol that is not in the active set, \<open>update_position\<close> raises
  the not-found error and leaves the state as it was. A symbol whose position an update
  has closed (by stop, by the last profit level or by time) is no longer in the active
  set, so every later update of it is rejected in the same way and realizes nothing.
\<close>

theorem update_rejects_inactive_symbol:
  "(active_positions self ticker = None \<longrightarrow>
      update_position ticker current_price_data market_data self = (Inl PositionNotFound, self))
   \<and> (\<forall>r. fst (update_position ticker current_price_data market_data self) = Inr r
            \<and> position_status r = ''CLOSED'' \<longrightarrow>
          update_position ticker later_price_data later_market_data
              (snd (update_position ticker current_price_data market_data self)) =
            (Inl PositionNotFound, snd (update_position ticker current_price_data market_data self)))"
proof -
  have absent: "update_position t pd md s = (Inl PositionNotFound, s)"
    if "active_positions s t = None" for t pd md s
    using that by (simp add: update_position_def)
  have removed:
    "active_positions (snd (update_position ticker current_price_data market_data self)) ticker = None"
    if r: "fst (update_position ticker current_price_data market_data self) = Inr r"
      and closed: "position_status r = ''CLOSED''" for r
  proof (cases "active_positions self ticker")
    case None
    with r absent [of self ticker] show ?thesis by simp
  next
    case (Some p)
    with r update_position_zero_entry [OF Some] have nz: "entry_price p \<noteq> 0"
      by auto
    from closed obtain cr where "r = CLOSED cr"
      by (cases r) simp_all
    with r update_position_outcome [OF Some nz, of current_price_data market_data]
    show ?thesis by auto
  qed
  show ?thesis
    using absent removed by blast
qed

theorem update_rejects_inactive_symbol_witness:
  "update_position ''EDN'' [''high'' \<mapsto> 51, ''low'' \<mapsto> 49, ''close'' \<mapsto> 50] Map.empty init_manager
     = (Inl PositionNotFound, init_manager)
   \<and> update_position ''EDN'' [''high'' \<mapsto> 51, ''low'' \<mapsto> 49, ''close'' \<mapsto> 50] Map.empty
       (snd (update_position ''EDN'' [''high'' \<mapsto> 65, ''low'' \<mapsto> 45, ''close'' \<mapsto> 60] Map.empty
              (snd (open_position ''EDN'' 50 Map.empty None init_manager))))
     = (Inl PositionNotFound,
        snd (update_position ''EDN'' [''high'' \<mapsto> 65, ''low'' \<mapsto> 45, ''close'' \<mapsto> 60] Map.empty
              (snd (open_position ''EDN'' 50 Map.empty None init_manager))))"
  using update_rejects_inactive_symbol
          [of init_manager "''EDN''" "[''high'' \<mapsto> 51, ''low'' \<mapsto> 49, ''close'' \<mapsto> 50]" Map.empty]
        update_rejects_inactive_symbol
          [of "snd (open_position ''EDN'' 50 Map.empty None init_manager)" "''EDN''"
              "[''high'' \<mapsto> 65, ''low'' \<mapsto> 45, ''close'' \<mapsto> 60]" Map.empty
              "[''high'' \<mapsto> 51, ''low'' \<mapsto> 49, ''close'' \<mapsto> 50]" Map.empty]
        update_EDN_stop
  by (simp add: init_manager_def)

text \<open>
  C5. For every active position of a reachable state with no profit level hit and a
  remaining position of 100, an update whose daily low is at or below the stop level
  closes the position in that call: the result is the closed dictionary, the position
  has its stop triggered, nothing remaining and the realized return
  (stop level - entry price) / entry price, which is also the final return reported
  and recorded; the stop is the only action taken, whatever the high, the market data
  and the days held, and the position leaves the active set.
\<close>

theorem stop_loss_closes_position:
  assumes "reachable self"
      and "active_positions self ticker = Some position"
      and "profit_levels_hit position = []"
      and "remaining_position position = 100"
      and "low_of current_price_data \<le> stop_level position"
  shows "\<exists>r. fst (update_position ticker current_price_data market_data self) = Inr (CLOSED r)
           \<and> stop_triggered (cr_position r) \<and> remaining_position (cr_position r) = 0
           \<and> realized_pnl (cr_position r) =
               (stop_level position - entry_price position) / entry_price position
           \<and> cr_final_pnl r = (stop_level position - entry_price position) / entry_price position
           \<and> cr_actions r =
               [STOP_LOSS_EXECUTED (stop_level position) 0
                  ((stop_level position - entry_price position) / entry_price position)]
           \<and> active_positions (snd (update_position ticker current_price_data market_data self))
                ticker = None
           \<and> performance_history (snd (update_position ticker current_price_data market_data self)) =
               performance_history self @
                 [(stop_level position - entry_price position) / entry_price position]"
proof -
  from assms(1,2) reachable_manager_ok have ok: "position_ok position"
    by (auto simp: manager_ok_def)
  with assms(3) have nz: "entry_price position \<noteq> 0" and untriggered: "\<not> stop_triggered position"
    and unrealized: "realized_pnl position = 0"
    by (simp_all add: position_ok_def)
  from assms(4,5) untriggered
  have "update_position ticker current_price_data market_data self =
          execute_stop_loss ticker (track_performance position current_price_data) self"
    by (simp add: update_position_unfold [OF assms(2) nz])
  with unrealized assms(4) show ?thesis
    by (simp add: execute_stop_loss_eq close_and_return_eq track_performance_fields)
qed

theorem stop_loss_closes_position_witness:
  "\<exists>r. fst (update_position ''EDN'' [''high'' \<mapsto> 65, ''low'' \<mapsto> 45, ''close'' \<mapsto> 60] Map.empty
               (snd (open_position ''EDN'' 50 Map.empty None init_manager))) = Inr (CLOSED r)
       \<and> stop_triggered (cr_position r) \<and> remaining_position (cr_position r) = 0
       \<and> realized_pnl (cr_position r) = (46 - 50) / 50
       \<and> cr_final_pnl r = (46 - 50) / 50
       \<and> cr_actions r = [STOP_LOSS_EXECUTED 46 0 ((46 - 50) / 50)]"
  using stop_loss_closes_position
          [OF EDN_reachable EDN_active,
           of "[''high'' \<mapsto> 65, ''low'' \<mapsto> 45, ''close'' \<mapsto> 60]" Map.empty]
  by (simp add: low_of_def) blast

text \<open>
  C1 fails on \<open>update_position\<close>, whose loop over the profit levels goes on after a
  level has executed. For the position opened for EDN at 50 (targets 56, 62.5, 70) a
  day with a high of 65 and a low of 49 executes the first two levels in one call: the
  position stays active, two levels are hit and 50 remain.
\<close>

theorem profit_taking_two_levels_evaluation:
  "fst (update_position ''EDN'' [''high'' \<mapsto> 65, ''low'' \<mapsto> 49, ''close'' \<mapsto> 60] Map.empty
          (snd (open_position ''EDN'' 50 Map.empty None init_manager))) =
     Inr (ACTIVE
       \<lparr>ar_symbol = ''EDN'',
        ar_actions = [PROFIT_TAKING_LEVEL 1 56 25 75 0.03 12,
                      PROFIT_TAKING_LEVEL 2 62.5 25 50 0.0625 25],
        ar_current_pnl = 0.2, ar_realized_pnl = 0.0925, ar_remaining_position = 50,
        ar_days_held = 1, ar_max_profit_seen = 0.3, ar_max_loss_seen = - 0.02,
        ar_position =
          \<lparr>symbol = ''EDN'', entry_price = 50, position_size = 100,
           regime_at_entry = ''bull_normal'', vix_at_entry = 20, stop_level = 46,
           profit_levels = [56, 62.5, 70], profit_scales = [25, 50, 100],
           stop_triggered = False, profit_levels_hit = [0, 1], remaining_position = 50,
           realized_pnl = 0.0925, max_profit_seen = 0.3, max_loss_seen = - 0.02,
           days_held = 1\<rparr>\<rparr>)"
  by (simp add: update_position_unfold [OF EDN_active] low_of_def high_of_def close_of_def
        track_performance_def check_regime_changes_def check_time_exit_def Let_def)

text \<open>
  C7 as stated fails: a negative entry price is not rejected. Opening X at -10 on a
  fresh manager succeeds and stores a position with that entry price.
\<close>

theorem open_negative_entry_counterexample:
  "\<not> isl (fst (open_position ''X'' (- 10) Map.empty None init_manager))
   \<and> map_option entry_price
       (active_positions (snd (open_position ''X'' (- 10) Map.empty None init_manager)) ''X'')
     = Some (- 10)"
proof -
  have "momentum_defined (entry_state Map.empty init_manager) (current_market_state init_manager)"
    by (simp add: momentum_defined_def init_manager_def)
  from open_position_succeeds [of init_manager "''X''" "- 10" Map.empty None, OF _ _ this]
  obtain r s' where res: "open_position ''X'' (- 10) Map.empty None init_manager = (Inr r, s')"
    by (auto simp: init_manager_def)
  from open_position_success_state [OF res] res show ?thesis
    by auto
qed

text \<open>
  C7, amended. \<open>open_position\<close> does not validate the entry price. For a new symbol,
  an entry price of zero makes the call fail with a division error, raised in the
  transition detection, in the stop computation or in the profit ladder; no position
  is created and nothing is appended to the trade history or the performance history,
  but the current and previous market state have already been replaced. A negative
  entry price, when the transition detection is defined, is accepted and a position
  with that entry price is stored.
\<close>

theorem open_without_validation:
  assumes "active_positions self ticker = None"
  shows "(entry = 0 \<longrightarrow>
            fst (open_position ticker entry market_data position_size_arg self) = Inl ZeroDivisionError
          \<and> active_positions (snd (open_position ticker entry market_data position_size_arg self)) =
              active_positions self
          \<and> trade_history (snd (open_position ticker entry market_data position_size_arg self)) =
              trade_history self
          \<and> performance_history (snd (open_position ticker entry market_data position_size_arg self)) =
              performance_history self
          \<and> current_market_state (snd (open_position ticker entry market_data position_size_arg self)) =
              Some (entry_state market_data self)
          \<and> previous_market_state (snd (open_position ticker entry market_data position_size_arg self)) =
              current_market_state self)
       \<and> (entry < 0 \<and> momentum_defined (entry_state market_data self) (current_market_state self) \<longrightarrow>
            (\<exists>r position.
                fst (open_position ticker entry market_data position_size_arg self) = Inr r
              \<and> active_positions (snd (open_position ticker entry market_data position_size_arg self))
                  ticker = Some position
              \<and> entry_price position = entry))"
proof (intro conjI impI)
  assume zero: "entry = 0"
  show "fst (open_position ticker entry market_data position_size_arg self) = Inl ZeroDivisionError"
    using zero open_position_zero_entry [OF assms] by simp
  then obtain s' where res:
    "open_position ticker entry market_data position_size_arg self = (Inl ZeroDivisionError, s')"
    by (cases "open_position ticker entry market_data position_size_arg self") auto
  from open_position_error_state [OF res] res
  show "active_positions (snd (open_position ticker entry market_data position_size_arg self)) =
          active_positions self"
    and "trade_history (snd (open_position ticker entry market_data position_size_arg self)) =
          trade_history self"
    and "performance_history (snd (open_position ticker entry market_data position_size_arg self)) =
          performance_history self"
    by simp_all
  from open_position_market_state [OF assms]
  show "current_market_state (snd (open_position ticker entry market_data position_size_arg self)) =
          Some (entry_state market_data self)"
    and "previous_market_state (snd (open_position ticker entry market_data position_size_arg self)) =
          current_market_state self"
    by simp_all
next
  assume neg: "entry < 0 \<and> momentum_defined (entry_state market_data self) (current_market_state self)"
  then have "entry \<noteq> 0" by simp
  from open_position_succeeds [OF assms this] neg
  obtain r s' where res:
    "open_position ticker entry market_data position_size_arg self = (Inr r, s')"
    by blast
  from open_position_success_state [OF res] res
  show "\<exists>r position.
          fst (open_position ticker entry market_data position_size_arg self) = Inr r
        \<and> active_positions (snd (open_position ticker entry market_data position_size_arg self))
            ticker = Some position
        \<and> entry_price position = entry"
    by auto
qed

theorem open_without_validation_witness:
  "fst (open_position ''X'' 0 [''true_range'' \<mapsto> 1] None init_manager) = Inl ZeroDivisionError
   \<and> active_positions (snd (open_position ''X'' 0 [''true_range'' \<mapsto> 1] None init_manager)) =
       Map.empty
   \<and> trade_history (snd (open_position ''X'' 0 [''true_range'' \<mapsto> 1] None init_manager)) = []
   \<and> current_market_state (snd (open_position ''X'' 0 [''true_range'' \<mapsto> 1] None init_manager)) =
       Some \<lparr>vix_level = 20, t2108_level = None, momentum_ratio = None, day = 1, regime = BULL_NORMAL\<rparr>
   \<and> (\<exists>r position.
          fst (open_position ''X'' (- 10) Map.empty None init_manager) = Inr r
        \<and> active_positions (snd (open_position ''X'' (- 10) Map.empty None init_manager)) ''X'' =
            Some position
        \<and> entry_price position = - 10)"
  using open_without_validation [of init_manager "''X''" 0 "[''true_range'' \<mapsto> 1]" None]
        open_without_validation [of init_manager "''X''" "- 10" Map.empty None]
  by (simp add: init_manager_def entry_state_def market_vix_def momentum_defined_def)

text \<open>
  C10 as stated fails: a call that omits the VIX can still fail. Opening EDN a second
  time, again without market data, is rejected as a duplicate.
\<close>

theorem open_missing_vix_duplicate_counterexample:
  "open_position ''EDN'' 50 Map.empty None
     (snd (open_position ''EDN'' 50 Map.empty None init_manager)) =
   (Inl DuplicatePosition, snd (open_position ''EDN'' 50 Map.empty None init_manager))"
  by (rule open_position_duplicate [OF EDN_active])

text \<open>
  C10, amended. For every call of \<open>open_position\<close> whose market data has no VIX, for a
  new symbol, a non-zero entry price and a defined momentum division, the call
  succeeds with a VIX of 20 and the regime bull normal: with \<open>snapshot\<close> the market
  state built with the VIX 20 and \<open>true_range\<close> the true range given, or 2 percent of
  the entry price when none is given, the transition detection on \<open>snapshot\<close>, the
  adaptive stop and the profit ladder on the adjusted bull-normal rules with
  \<open>true_range\<close> all return, and the call returns the dictionary and the state built from
  their results: the position stored has the VIX at entry 20, the stop level and the
  profit targets computed with \<open>true_range\<close>.
\<close>

theorem open_defaults_missing_vix:
  assumes "market_data ''vix'' = None"
      and "active_positions self ticker = None"
      and "entry \<noteq> 0"
      and "snapshot =
             \<lparr>vix_level = 20, t2108_level = market_data ''t2108'',
              momentum_ratio = market_data ''momentum_ratio'',
              day = length (regime_history self) + 1, regime = BULL_NORMAL\<rparr>"
      and "momentum_defined snapshot (current_market_state self)"
      and "true_range = (case market_data ''true_range'' of None \<Rightarrow> entry * 0.02 | Some v \<Rightarrow> v)"
  shows "\<exists>detected new_regime adjustment history stop st targets.
           detect_regime_transition snapshot (current_market_state self)
               (adjustment_history self) = (Inr (detected, new_regime, adjustment), history)
         \<and> calculate_adaptive_stop ticker entry true_range
               (apply_dynamic_adjustments bull_normal_rules adjustment) snapshot
               (current_market_state self) (history, rolling_true_ranges self) = (Inr stop, st)
         \<and> calculate_dynamic_profits entry
               (apply_dynamic_adjustments bull_normal_rules adjustment) true_range = Inr targets
         \<and> open_position ticker entry market_data position_size_arg self =
             (Inr \<lparr>or_position_id = ticker, or_entry_price = entry,
                   or_regime = ''bull_normal'',
                   or_stop_level = sd_stop_level stop,
                   or_stop_distance_pct = ((sd_stop_level stop - entry) / entry) * 100,
                   or_profit_targets = map pt_price targets,
                   or_expected_hold_days =
                     cfg_max_hold_override (apply_dynamic_adjustments bull_normal_rules adjustment),
                   or_regime_transition_detected = detected,
                   or_market_adjustments = reason adjustment\<rparr>,
              self\<lparr>previous_market_state := current_market_state self,
                    current_market_state := Some snapshot,
                    adjustment_history := fst st,
                    rolling_true_ranges := snd st,
                    active_positions :=
                      (active_positions self)
                        (ticker \<mapsto>
                           \<lparr>symbol = ticker, entry_price = entry,
                            position_size =
                              (case position_size_arg of
                                 None \<Rightarrow> max_position_size self | Some p \<Rightarrow> p),
                            regime_at_entry = ''bull_normal'',
                            vix_at_entry = 20, stop_level = sd_stop_level stop,
                            profit_levels = map pt_price targets,
                            profit_scales =
                              cfg_position_scaling
                                (apply_dynamic_adjustments bull_normal_rules adjustment),
                            stop_triggered = False, profit_levels_hit = [],
                            remaining_position = 100, realized_pnl = 0, max_profit_seen = 0,
                            max_loss_seen = 0, days_held = 0\<rparr>),
                    trade_history :=
                      trade_history self @
                        [POSITION_OPENED
                           \<lparr>ol_symbol = ticker, ol_entry_price = entry,
                            ol_regime = ''bull_normal'', ol_vix = 20,
                            ol_stop_level = sd_stop_level stop,
                            ol_profit_targets = map pt_price targets,
                            ol_adjustments_applied =
                              (if reason_nonempty (reason adjustment) then reason adjustment
                               else [Txt ''none''])\<rparr>]\<rparr>)"
proof -
  have vix: "market_vix market_data = 20"
    using assms(1) by (simp add: market_vix_def)
  have snap: "entry_state market_data self = snapshot"
    using assms(4) vix by (simp add: entry_state_def)
  have tr: "market_true_range market_data entry = true_range"
    using assms(6) by (simp add: market_true_range_def)
  have regime_name: "classify_regime (market_vix market_data) = ''bull_normal''"
    using vix classify_20 by simp
  have defined: "momentum_defined (entry_state market_data self) (current_market_state self)"
    using assms(5) snap by simp
  from open_position_success [OF assms(2,3) defined, of position_size_arg]
  obtain base detected new_regime adjustment history stop st targets where
    "map_of regime_configurations (classify_regime (market_vix market_data)) = Some base"
    and stages:
    "detect_regime_transition (entry_state market_data self) (current_market_state self)
       (adjustment_history self) = (Inr (detected, new_regime, adjustment), history)
     \<and> calculate_adaptive_stop ticker entry (market_true_range market_data entry)
         (apply_dynamic_adjustments base adjustment) (entry_state market_data self)
         (current_market_state self) (history, rolling_true_ranges self) = (Inr stop, st)
     \<and> calculate_dynamic_profits entry (apply_dynamic_adjustments base adjustment)
         (market_true_range market_data entry) = Inr targets
     \<and> open_position ticker entry market_data position_size_arg self =
             (Inr \<lparr>or_position_id = ticker, or_entry_price = entry,
                   or_regime = classify_regime (market_vix market_data),
                   or_stop_level = sd_stop_level stop,
                   or_stop_distance_pct = ((sd_stop_level stop - entry) / entry) * 100,
                   or_profit_targets = map pt_price targets,
                   or_expected_hold_days =
                     cfg_max_hold_override (apply_dynamic_adjustments base adjustment),
                   or_regime_transition_detected = detected,
                   or_market_adjustments = reason adjustment\<rparr>,
              self\<lparr>previous_market_state := current_market_state self,
                    current_market_state := Some (entry_state market_data self),
                    adjustment_history := fst st,
                    rolling_true_ranges := snd st,
                    active_positions :=
                      (active_positions self)
                        (ticker \<mapsto>
                           \<lparr>symbol = ticker, entry_price = entry,
                            position_size =
                              (case position_size_arg of
                                 None \<Rightarrow> max_position_size self | Some p \<Rightarrow> p),
                            regime_at_entry = classify_regime (market_vix market_data),
                            vix_at_entry = market_vix market_data,
                            stop_level = sd_stop_level stop,
                            profit_levels = map pt_price targets,
                            profit_scales =
                              cfg_position_scaling (apply_dynamic_adjustments base adjustment),
                            stop_triggered = False, profit_levels_hit = [],
                            remaining_position = 100, realized_pnl = 0, max_profit_seen = 0,
                            max_loss_seen = 0, days_held = 0\<rparr>),
                    trade_history :=
                      trade_history self @
                        [POSITION_OPENED
                           \<lparr>ol_symbol = ticker, ol_entry_price = entry,
                            ol_regime = classify_regime (market_vix market_data),
                            ol_vix = market_vix market_data,
                            ol_stop_level = sd_stop_level stop,
                            ol_profit_targets = map pt_price targets,
                            ol_adjustments_applied =
                              (if reason_nonempty (reason adjustment) then reason adjustment
                               else [Txt ''none''])\<rparr>]\<rparr>)"
    by blast
  then have base: "base = bull_normal_rules"
    using regime_name map_of_bull by simp
  from stages show ?thesis
    unfolding base snap tr vix classify_20
    by blast
qed

theorem open_defaults_missing_vix_witness:
  "\<exists>r. fst (open_position ''EDN'' 50 [''t2108'' \<mapsto> 45] None init_manager) = Inr r
       \<and> or_regime r = ''bull_normal'' \<and> or_entry_price r = 50
       \<and> map_option vix_at_entry
           (active_positions (snd (open_position ''EDN'' 50 [''t2108'' \<mapsto> 45] None init_manager))
              ''EDN'') = Some 20
       \<and> current_market_state (snd (open_position ''EDN'' 50 [''t2108'' \<mapsto> 45] None init_manager)) =
           Some \<lparr>vix_level = 20, t2108_level = Some 45, momentum_ratio = None, day = 1,
                 regime = BULL_NORMAL\<rparr>"
proof -
  have h1: "[''t2108'' \<mapsto> (45::real)] ''vix'' = None" by simp
  have h2: "active_positions init_manager ''EDN'' = None" by (simp add: init_manager_def)
  have h3: "(50::real) \<noteq> 0" by simp
  have h4: "\<lparr>vix_level = 20, t2108_level = Some 45, momentum_ratio = None, day = 1,
             regime = BULL_NORMAL\<rparr> =
            \<lparr>vix_level = 20, t2108_level = [''t2108'' \<mapsto> (45::real)] ''t2108'',
             momentum_ratio = [''t2108'' \<mapsto> (45::real)] ''momentum_ratio'',
             day = length (regime_history init_manager) + 1, regime = BULL_NORMAL\<rparr>"
    by (simp add: init_manager_def)
  have h5: "momentum_defined
              \<lparr>vix_level = 20, t2108_level = Some 45, momentum_ratio = None, day = 1,
               regime = BULL_NORMAL\<rparr> (current_market_state init_manager)"
    by (simp add: momentum_defined_def init_manager_def)
  have h6: "(1::real) = (case [''t2108'' \<mapsto> (45::real)] ''true_range'' of
                            None \<Rightarrow> 50 * 0.02 | Some v \<Rightarrow> v)"
    by simp
  from open_defaults_missing_vix
         [where market_data = "[''t2108'' \<mapsto> 45]" and self = init_manager
            and ticker = "''EDN''" and entry = 50 and true_range = 1
            and position_size_arg = None, OF h1 h2 h3 h4 h5 h6]
  show ?thesis
    by (elim exE conjE) simp
qed

end
